theory Spec2Isabelle
  imports Complex_Main "HOL-Library.Word"
begin

section \<open>Data model\<close>

text \<open>
  The persisted entities are the rows the handlers read and write through the
  object-relational mapper. A table with a unique key is a map from that key to its row;
  a table that is searched by a non-unique column is a list in insertion order.
  Identifiers handed out by the store (job ids) are the row's position in the table.
  Counters are \<open>int\<close>: the store's integer columns are signed, and a decrement is
  written as a subtraction that could go below zero.

  The relational store is part of the state: a read or write of it fails only for the
  reasons the handlers themselves rely on (a second row with the same unique key, an
  update of a row that does not exist). The services reached over the network (the
  key-value store, the input download, the model API, object storage, the billing
  provider) can fail at every call, and each call's outcome is an input of the model.
  A handler is a function from the state before the request to the state after it;
  \<open>decrementQuota\<close> is also given one store call at a time, so that calls of concurrent
  requests can be interleaved.
\<close>

type_synonym user_id = string
type_synonym month_key = string
type_synonym job_id = nat
type_synonym bytes = "8 word list"

datatype json =
    JNull
  | JBool bool
  | JNum rat
  | JStr string
  | JArr "json list"
  | JObj "(string \<times> json) list"

datatype PlanTier = FREE | BASIC_50 | PLUS_200 | PRO_1000

datatype job_status = QUEUED | PROCESSING | BLOCKED | COMPLETED | FAILED

datatype StylePreset = BYZANTINE | GOTHIC | CYBERPUNK

datatype output_format = PNG | WEBP

record plan_default =
  monthlyQuota :: int
  pd_watermarkExempt :: bool

record quota =
  q_userId :: user_id
  q_monthUtc :: month_key
  freeRemaining :: int
  paidRemaining :: int
  watermarkExempt :: bool

record image_job =
  job_userId :: user_id
  inputBlobUrl :: string
  style :: StylePreset
  promptVariant :: "string option"
  status :: job_status
  blockedReason :: "string option"
  outputBlobUrl :: "string option"
  completedAt :: "nat option"

record generation_event =
  ge_jobId :: job_id
  ge_step :: string
  ge_detailJson :: "json option"

record subscription =
  sub_userId :: user_id
  sub_status :: string
  planTier :: PlanTier
  stripeCustomerId :: "string option"
  stripeSubscriptionId :: "string option"
  stripePriceId :: "string option"
  currentPeriodStart :: "nat option"
  currentPeriodEnd :: "nat option"
  anchorUtcDay :: "nat option"
  sub_updatedAt :: nat

record webhook_event =
  we_type :: string
  we_status :: string
  we_processedAt :: "nat option"

record audit_log =
  al_userId :: user_id
  al_action :: string
  al_status :: string
  al_stripeCustomerId :: "string option"
  al_stripeSubscriptionId :: "string option"
  al_stripePriceId :: "string option"
  al_resolvedTier :: PlanTier
  al_month :: month_key

text \<open>
  \<open>sub_updatedAt\<close> is the update time the store keeps for a subscription row; the usage
  endpoint orders by it.
\<close>

text \<open>
  Outbound calls of the generation handler (input download, model API, object storage),
  in the order they are made.
\<close>

datatype ext_call =
    FetchCall string
  | GeminiCall StylePreset
  | PutCall string

text \<open>
  The state of the system: the relational tables, the key-value store of the rate limiter
  and of the idempotency locks (value and time to live per key), and two histories kept for
  stating properties: \<open>statusWrites\<close> is the sequence of status values assigned to job
  rows (one entry per \<open>imageJob.create\<close> or \<open>imageJob.update\<close>) and \<open>extCalls\<close> the
  sequence of outbound calls.
\<close>

record sys =
  quotaT :: "(user_id \<times> month_key) \<rightharpoonup> quota"
  imageJobT :: "image_job list"
  generationEventT :: "generation_event list"
  subscriptionT :: "subscription list"
  webhookEventT :: "string \<rightharpoonup> webhook_event"
  auditLogT :: "audit_log list"
  redisKV :: "string \<rightharpoonup> (int \<times> int option)"
  statusWrites :: "(job_id \<times> job_status) list"
  extCalls :: "ext_call list"

definition init_sys :: sys where
  "init_sys = \<lparr> quotaT = Map.empty, imageJobT = [], generationEventT = [],
     subscriptionT = [], webhookEventT = Map.empty, auditLogT = [],
     redisKV = Map.empty, statusWrites = [], extCalls = [] \<rparr>"

text \<open>The process environment: variables are absent (\<open>None\<close>) or hold a string.\<close>

record config =
  PRICE_ID_BASIC_50 :: "string option"
  PRICE_ID_PLUS_200 :: "string option"
  PRICE_ID_PRO_1000 :: "string option"
  UPSTASH_REDIS_REST_URL :: "string option"
  UPSTASH_REDIS_REST_TOKEN :: "string option"
  BLOB_READ_WRITE_TOKEN :: "string option"
  STRIPE_WEBHOOK_SECRET :: "string option"
  GEMINI_IMAGE_MODEL :: "string option"

text \<open>The clock: the fields of \<open>new Date()\<close> the code reads.\<close>

record clock =
  utcFullYear :: nat
  utcMonth :: nat
  epochMs :: nat

text \<open>JavaScript truthiness of an optional string: absent and empty are both falsy.\<close>

definition truthy :: "string option \<Rightarrow> bool" where
  "truthy v = (case v of None \<Rightarrow> False | Some s \<Rightarrow> s \<noteq> [])"

section \<open>Entitlements (lib/entitlements.ts)\<close>

definition PLAN_DEFAULTS :: "PlanTier \<Rightarrow> plan_default" where
  "PLAN_DEFAULTS t = (case t of
       FREE \<Rightarrow> \<lparr> monthlyQuota = 5, pd_watermarkExempt = False \<rparr>
     | BASIC_50 \<Rightarrow> \<lparr> monthlyQuota = 50, pd_watermarkExempt = True \<rparr>
     | PLUS_200 \<Rightarrow> \<lparr> monthlyQuota = 200, pd_watermarkExempt = True \<rparr>
     | PRO_1000 \<Rightarrow> \<lparr> monthlyQuota = 1000, pd_watermarkExempt = True \<rparr>)"

definition planFromStripePriceId :: "config \<Rightarrow> string option \<Rightarrow> PlanTier" where
  "planFromStripePriceId cfg priceId =
     (let basic = PRICE_ID_BASIC_50 cfg; plus = PRICE_ID_PLUS_200 cfg; pro = PRICE_ID_PRO_1000 cfg
      in if truthy priceId \<and> truthy basic \<and> priceId = basic then BASIC_50
         else if truthy priceId \<and> truthy plus \<and> priceId = plus then PLUS_200
         else if truthy priceId \<and> truthy pro \<and> priceId = pro then PRO_1000
         else FREE)"

fun toString_nat :: "nat \<Rightarrow> string" where
  "toString_nat n =
     (if n < 10 then [char_of (48 + n)]
      else toString_nat (n div 10) @ [char_of (48 + n mod 10)])"

declare toString_nat.simps [simp del]

definition padStart2 :: "string \<Rightarrow> string" where
  "padStart2 s = replicate (2 - length s) (CHR ''0'') @ s"

definition monthUtc :: "clock \<Rightarrow> month_key" where
  "monthUtc date =
     (let y = utcFullYear date; m = padStart2 (toString_nat (utcMonth date + 1))
      in toString_nat y @ ''-'' @ m)"

definition getOrCreateQuota :: "sys \<Rightarrow> user_id \<Rightarrow> month_key \<Rightarrow> quota \<times> sys" where
  "getOrCreateQuota s userId month =
     (case quotaT s (userId, month) of
        Some q \<Rightarrow> (q, s)
      | None \<Rightarrow>
          (let q = \<lparr> q_userId = userId, q_monthUtc = month,
                     freeRemaining = monthlyQuota (PLAN_DEFAULTS FREE),
                     paidRemaining = 0, watermarkExempt = False \<rparr>
           in (q, s\<lparr> quotaT := (quotaT s)((userId, month) \<mapsto> q) \<rparr>)))"

text \<open>
  \<open>prisma.quota.update\<close> of the row with unique key \<open>k\<close>: the change is applied to the
  row the table holds (the store's own decrement) and the updated row is returned; with no
  such row the store reports an error and nothing is written.
\<close>

datatype error = Error string | SafetyBlockedError string

definition quota_update ::
  "sys \<Rightarrow> user_id \<times> month_key \<Rightarrow> (quota \<Rightarrow> quota) \<Rightarrow> (error + quota) \<times> sys"
where
  "quota_update s k f =
     (case quotaT s k of
        None \<Rightarrow> (Inl (Error ''Record to update not found''), s)
      | Some r \<Rightarrow> (Inr (f r), s\<lparr> quotaT := (quotaT s)(k \<mapsto> f r) \<rparr>))"

definition decrementQuota :: "clock \<Rightarrow> sys \<Rightarrow> user_id \<Rightarrow> (error + quota) \<times> sys" where
  "decrementQuota date s userId =
     (let m = monthUtc date;
          (q, s1) = getOrCreateQuota s userId m
      in if paidRemaining q > 0 then
           quota_update s1 (userId, m) (\<lambda>r. r\<lparr> paidRemaining := paidRemaining r - 1 \<rparr>)
         else if freeRemaining q > 0 then
           quota_update s1 (userId, m) (\<lambda>r. r\<lparr> freeRemaining := freeRemaining r - 1 \<rparr>)
         else (Inl (Error ''Quota exceeded for the current month''), s1))"

text \<open>
  \<open>decrementQuota\<close> one store call at a time. A call in flight has found no row yet
  (\<open>DecFind\<close>: \<open>findUnique\<close> is next), has found none and will create one (\<open>DecCreate\<close>),
  holds the copy of the row it has read or created and will test its guard on that copy
  and issue the update (\<open>DecUpdate\<close>), or has returned or thrown (\<open>DecDone\<close>). Between two
  steps of one call, other calls may take steps of theirs. A \<open>create\<close> of a row whose
  unique key is taken throws.
\<close>

datatype dec_state =
    DecFind
  | DecCreate
  | DecUpdate quota
  | DecDone "error + quota"

definition dec_step :: "clock \<Rightarrow> user_id \<Rightarrow> dec_state \<Rightarrow> sys \<Rightarrow> dec_state \<times> sys" where
  "dec_step date userId st s =
     (let m = monthUtc date in
      case st of
        DecFind \<Rightarrow>
          (case quotaT s (userId, m) of
             Some q \<Rightarrow> (DecUpdate q, s)
           | None \<Rightarrow> (DecCreate, s))
      | DecCreate \<Rightarrow>
          (case quotaT s (userId, m) of
             Some _ \<Rightarrow> (DecDone (Inl (Error ''Unique constraint failed'')), s)
           | None \<Rightarrow>
               (let q = \<lparr> q_userId = userId, q_monthUtc = m,
                          freeRemaining = monthlyQuota (PLAN_DEFAULTS FREE),
                          paidRemaining = 0, watermarkExempt = False \<rparr>
                in (DecUpdate q, s\<lparr> quotaT := (quotaT s)((userId, m) \<mapsto> q) \<rparr>)))
      | DecUpdate q \<Rightarrow>
          if paidRemaining q > 0 then
            (let (r, s') = quota_update s (userId, m)
                             (\<lambda>r. r\<lparr> paidRemaining := paidRemaining r - 1 \<rparr>)
             in (DecDone r, s'))
          else if freeRemaining q > 0 then
            (let (r, s') = quota_update s (userId, m)
                             (\<lambda>r. r\<lparr> freeRemaining := freeRemaining r - 1 \<rparr>)
             in (DecDone r, s'))
          else (DecDone (Inl (Error ''Quota exceeded for the current month'')), s)
      | DecDone r \<Rightarrow> (DecDone r, s))"

definition isWatermarkExempt :: "clock \<Rightarrow> sys \<Rightarrow> user_id \<Rightarrow> bool" where
  "isWatermarkExempt date s userId =
     (case quotaT s (userId, monthUtc date) of
        None \<Rightarrow> False
      | Some q \<Rightarrow> watermarkExempt q)"

text \<open>
  The options object of \<open>applyEntitlementsForSubscription\<close>. The function upserts the
  subscription row, brings the current month's quota row in line with the resolved tier
  (the row exists: \<open>getOrCreateQuota\<close> has just returned it) and writes an audit entry.
\<close>

record entitlement_opts =
  eo_userId :: user_id
  eo_status :: string
  eo_stripeCustomerId :: "string option"
  eo_stripeSubscriptionId :: "string option"
  eo_stripePriceId :: "string option"
  eo_currentPeriodStart :: "nat option"
  eo_currentPeriodEnd :: "nat option"
  eo_anchorUtcDay :: "nat option"

text \<open>\<open>x ?? undefined\<close> in an update leaves the column as it is when \<open>x\<close> is absent.\<close>

definition orKeep :: "'a option \<Rightarrow> 'a option \<Rightarrow> 'a option" where
  "orKeep new old = (case new of None \<Rightarrow> old | Some v \<Rightarrow> Some v)"

definition resolveTier :: "config \<Rightarrow> entitlement_opts \<Rightarrow> PlanTier" where
  "resolveTier cfg opts =
     (if eo_status opts = ''active'' \<or> eo_status opts = ''trialing''
      then planFromStripePriceId cfg (eo_stripePriceId opts)
      else FREE)"

fun subscription_upsert ::
  "subscription list \<Rightarrow> string \<Rightarrow> (subscription \<Rightarrow> subscription) \<Rightarrow> subscription \<Rightarrow> subscription list"
where
  "subscription_upsert [] key upd new = [new]"
| "subscription_upsert (r # rs) key upd new =
     (if stripeSubscriptionId r = Some key then upd r # rs
      else r # subscription_upsert rs key upd new)"

definition applyEntitlementsForSubscription ::
  "config \<Rightarrow> clock \<Rightarrow> sys \<Rightarrow> entitlement_opts \<Rightarrow> PlanTier \<times> sys"
where
  "applyEntitlementsForSubscription cfg date s opts =
     (let userId = eo_userId opts;
          tier = resolveTier cfg opts;
          s1 = s\<lparr> subscriptionT :=
                 subscription_upsert (subscriptionT s)
                   (case eo_stripeSubscriptionId opts of None \<Rightarrow> [] | Some i \<Rightarrow> i)
                   (\<lambda>r. r\<lparr> sub_userId := userId, sub_status := eo_status opts, planTier := tier,
                           sub_updatedAt := epochMs date,
                           stripeCustomerId := orKeep (eo_stripeCustomerId opts) (stripeCustomerId r),
                           stripePriceId := orKeep (eo_stripePriceId opts) (stripePriceId r),
                           currentPeriodStart := orKeep (eo_currentPeriodStart opts) (currentPeriodStart r),
                           currentPeriodEnd := orKeep (eo_currentPeriodEnd opts) (currentPeriodEnd r),
                           anchorUtcDay := orKeep (eo_anchorUtcDay opts) (anchorUtcDay r) \<rparr>)
                   \<lparr> sub_userId = userId, sub_status = eo_status opts, planTier = tier,
                     stripeCustomerId = eo_stripeCustomerId opts,
                     stripeSubscriptionId = eo_stripeSubscriptionId opts,
                     stripePriceId = eo_stripePriceId opts,
                     currentPeriodStart = eo_currentPeriodStart opts,
                     currentPeriodEnd = eo_currentPeriodEnd opts,
                     anchorUtcDay = eo_anchorUtcDay opts,
                     sub_updatedAt = epochMs date \<rparr> \<rparr>;
          m = monthUtc date;
          (q, s2) = getOrCreateQuota s1 userId m;
          s3 = (if tier = FREE then
                  (let targetFree = monthlyQuota (PLAN_DEFAULTS FREE)
                   in snd (quota_update s2 (userId, m)
                        (\<lambda>r. r\<lparr> freeRemaining := min (freeRemaining q) targetFree,
                                paidRemaining := 0, watermarkExempt := False \<rparr>)))
                else
                  (let d = PLAN_DEFAULTS tier
                   in snd (quota_update s2 (userId, m)
                        (\<lambda>r. r\<lparr> paidRemaining := monthlyQuota d,
                                watermarkExempt := pd_watermarkExempt d \<rparr>))));
          s4 = s3\<lparr> auditLogT := auditLogT s3 @
                 [\<lparr> al_userId = userId, al_action = ''ENTITLEMENTS_SYNC'',
                    al_status = eo_status opts,
                    al_stripeCustomerId = eo_stripeCustomerId opts,
                    al_stripeSubscriptionId = eo_stripeSubscriptionId opts,
                    al_stripePriceId = eo_stripePriceId opts,
                    al_resolvedTier = tier, al_month = m \<rparr>] \<rparr>
      in (tier, s4))"


section \<open>Counter store (lib/redis.ts)\<close>

text \<open>
  The client of the key-value store: each of its commands either runs against the store
  or throws. \<open>getRedis\<close> yields no client when the URL or the token is missing.
\<close>

record redis_client =
  incr_throws :: bool
  expire_throws :: bool
  ttl_throws :: bool
  set_throws :: bool

definition getRedis :: "config \<Rightarrow> redis_client \<Rightarrow> redis_client option" where
  "getRedis cfg c =
     (if \<not> truthy (UPSTASH_REDIS_REST_URL cfg) \<or> \<not> truthy (UPSTASH_REDIS_REST_TOKEN cfg)
      then None else Some c)"

definition stripeEventLockKey :: "string \<Rightarrow> string" where
  "stripeEventLockKey eventId = ''stripe:event:'' @ eventId"

definition rateLimitKey :: "string \<Rightarrow> string \<Rightarrow> string" where
  "rateLimitKey scope ident = ''rl:'' @ scope @ '':'' @ ident"

definition tryAcquireIdempotency ::
  "config \<Rightarrow> redis_client \<Rightarrow> sys \<Rightarrow> string \<Rightarrow> int \<Rightarrow> bool \<times> sys"
where
  "tryAcquireIdempotency cfg c s key ttlSeconds =
     (case getRedis cfg c of
        None \<Rightarrow> (True, s)
      | Some client \<Rightarrow>
          if set_throws client then (True, s)
          else (case redisKV s key of
                  None \<Rightarrow> (True, s\<lparr> redisKV := (redisKV s)(key \<mapsto> (1, Some ttlSeconds)) \<rparr>)
                | Some _ \<Rightarrow> (False, s)))"

record rate_limit =
  allowed :: bool
  remaining :: int
  resetSeconds :: int

definition rateLimitWindow ::
  "config \<Rightarrow> redis_client \<Rightarrow> sys \<Rightarrow> string \<Rightarrow> int \<Rightarrow> int \<Rightarrow> rate_limit \<times> sys"
where
  "rateLimitWindow cfg c s key windowSeconds maxHits =
     (let failOpen = \<lparr> allowed = True, remaining = maxHits, resetSeconds = windowSeconds \<rparr>
      in case getRedis cfg c of
        None \<Rightarrow> (failOpen, s)
      | Some client \<Rightarrow>
          if incr_throws client then (failOpen, s)
          else
            (let count = (case redisKV s key of None \<Rightarrow> 1 | Some (v, _) \<Rightarrow> v + 1);
                 life = (case redisKV s key of None \<Rightarrow> None | Some (_, t) \<Rightarrow> t);
                 s1 = s\<lparr> redisKV := (redisKV s)(key \<mapsto> (count, life)) \<rparr>
             in if count = 1 \<and> expire_throws client then (failOpen, s1)
                else
                  (let s2 = (if count = 1
                             then s1\<lparr> redisKV := (redisKV s1)(key \<mapsto> (count, Some windowSeconds)) \<rparr>
                             else s1)
                   in if ttl_throws client then (failOpen, s2)
                      else
                        (let ttl = (case redisKV s2 key of
                                      None \<Rightarrow> - 2
                                    | Some (_, None) \<Rightarrow> - 1
                                    | Some (_, Some t) \<Rightarrow> t)
                         in (\<lparr> allowed = (count \<le> maxHits),
                               remaining = max 0 (maxHits - count),
                               resetSeconds = (if ttl \<ge> 0 then ttl else windowSeconds) \<rparr>, s2)))))"


section \<open>Generation endpoint (app/api/generate/route.ts)\<close>

text \<open>
  A response is a status code and a body. The detail string of a rejected body (the
  validation library's rendering of its issues) is not part of the model.
\<close>

datatype resp_body =
    ErrorBody string
  | JobIdBody job_id
  | WebhookOkBody bool "string option"
  | ImageBody bytes
  | UsageBody month_key PlanTier int int bool

record http_response =
  r_status :: nat
  r_body :: resp_body
  r_headers :: "(string \<times> string) list"

definition json_response :: "resp_body \<Rightarrow> nat \<Rightarrow> http_response" where
  "json_response b code = \<lparr> r_status = code, r_body = b, r_headers = [] \<rparr>"

subsection \<open>Body validation\<close>

record gen_body =
  b_inputUrl :: string
  b_style :: StylePreset
  b_promptVariant :: "string option"
  b_outputFormat :: "output_format option"

definition startsWith :: "string \<Rightarrow> string \<Rightarrow> bool" where
  "startsWith s p = (take (length p) s = p)"

fun includes_str :: "string \<Rightarrow> string \<Rightarrow> bool" where
  "includes_str [] p = (p = [])"
| "includes_str (c # cs) p = (startsWith (c # cs) p \<or> includes_str cs p)"

text \<open>A parsed JSON object keeps the last value of a repeated key.\<close>

definition obj_get :: "(string \<times> json) list \<Rightarrow> string \<Rightarrow> json option" where
  "obj_get kvs k = map_of (rev kvs) k"

text \<open>
  Each field parser returns \<open>None\<close> where the schema raises an issue. The URL syntax
  check of the validation library is the parameter \<open>isUrl\<close>.
\<close>

definition parse_inputUrl :: "(string \<Rightarrow> bool) \<Rightarrow> json option \<Rightarrow> string option" where
  "parse_inputUrl isUrl v =
     (case v of
        Some (JStr u) \<Rightarrow>
          if isUrl u \<and> (startsWith u ''https://'' \<or> startsWith u ''http://'')
             \<and> includes_str u ''/uploads/''
          then Some u else None
      | _ \<Rightarrow> None)"

definition parse_style :: "json option \<Rightarrow> StylePreset option" where
  "parse_style v =
     (case v of
        Some (JStr n) \<Rightarrow>
          if n = ''BYZANTINE'' then Some BYZANTINE
          else if n = ''GOTHIC'' then Some GOTHIC
          else if n = ''CYBERPUNK'' then Some CYBERPUNK
          else None
      | _ \<Rightarrow> None)"

definition parse_promptVariant :: "json option \<Rightarrow> string option option" where
  "parse_promptVariant v =
     (case v of
        None \<Rightarrow> Some None
      | Some (JStr p) \<Rightarrow> if length p \<le> 200 then Some (Some p) else None
      | Some _ \<Rightarrow> None)"

definition parse_outputFormat :: "json option \<Rightarrow> output_format option option" where
  "parse_outputFormat v =
     (case v of
        None \<Rightarrow> Some None
      | Some (JStr f) \<Rightarrow>
          if f = ''png'' then Some (Some PNG)
          else if f = ''webp'' then Some (Some WEBP)
          else None
      | Some _ \<Rightarrow> None)"

definition BodySchema_parse :: "(string \<Rightarrow> bool) \<Rightarrow> json \<Rightarrow> gen_body option" where
  "BodySchema_parse isUrl j =
     (case j of
        JObj kvs \<Rightarrow>
          (case parse_inputUrl isUrl (obj_get kvs ''inputUrl'') of
             None \<Rightarrow> None
           | Some u \<Rightarrow>
          (case parse_style (obj_get kvs ''style'') of
             None \<Rightarrow> None
           | Some st \<Rightarrow>
          (case parse_promptVariant (obj_get kvs ''promptVariant'') of
             None \<Rightarrow> None
           | Some pv \<Rightarrow>
          (case parse_outputFormat (obj_get kvs ''outputFormat'') of
             None \<Rightarrow> None
           | Some fmt \<Rightarrow>
               Some \<lparr> b_inputUrl = u, b_style = st, b_promptVariant = pv,
                      b_outputFormat = fmt \<rparr>))))
      | _ \<Rightarrow> None)"

subsection \<open>Helpers of the handler\<close>

definition toLowerCase :: "string \<Rightarrow> string" where
  "toLowerCase s =
     map (\<lambda>c. let n = (of_char c :: nat)
              in if 65 \<le> n \<and> n \<le> 90 then char_of (n + 32) else c) s"

definition extFromContentType :: "string \<Rightarrow> string" where
  "extFromContentType ct =
     (let mime = toLowerCase ct
      in if includes_str mime ''webp'' then ''webp''
         else if includes_str mime ''jpeg'' \<or> includes_str mime ''jpg'' then ''jpg''
         else ''png'')"

definition style_name :: "StylePreset \<Rightarrow> string" where
  "style_name st = (case st of BYZANTINE \<Rightarrow> ''BYZANTINE'' | GOTHIC \<Rightarrow> ''GOTHIC''
                     | CYBERPUNK \<Rightarrow> ''CYBERPUNK'')"

definition format_name :: "output_format \<Rightarrow> string" where
  "format_name f = (case f of PNG \<Rightarrow> ''png'' | WEBP \<Rightarrow> ''webp'')"

definition orPng :: "output_format option \<Rightarrow> output_format" where
  "orPng f = (case f of None \<Rightarrow> PNG | Some x \<Rightarrow> x)"

definition error_message :: "error \<Rightarrow> string" where
  "error_message e = (case e of Error m \<Rightarrow> m | SafetyBlockedError m \<Rightarrow> m)"

text \<open>\<open>recordEvent\<close> is best effort: it appends to the audit trail and never throws.\<close>

definition recordEvent :: "sys \<Rightarrow> job_id \<Rightarrow> string \<Rightarrow> json option \<Rightarrow> sys" where
  "recordEvent s jobId step detailJson =
     s\<lparr> generationEventT := generationEventT s @
          [\<lparr> ge_jobId = jobId, ge_step = step, ge_detailJson = detailJson \<rparr>] \<rparr>"

definition imageJob_create :: "sys \<Rightarrow> image_job \<Rightarrow> job_id \<times> sys" where
  "imageJob_create s row =
     (let jobId = length (imageJobT s)
      in (jobId, s\<lparr> imageJobT := imageJobT s @ [row],
                     statusWrites := statusWrites s @ [(jobId, status row)] \<rparr>))"

text \<open>
  \<open>imageJob.update\<close> with a new status and further column changes \<open>f\<close>. The handler only
  updates the row it has just created; for an id with no row nothing is written.
\<close>

definition imageJob_update :: "sys \<Rightarrow> job_id \<Rightarrow> job_status \<Rightarrow> (image_job \<Rightarrow> image_job) \<Rightarrow> sys" where
  "imageJob_update s jobId st f =
     (if jobId < length (imageJobT s)
      then s\<lparr> imageJobT := (imageJobT s)[jobId := (f (imageJobT s ! jobId))\<lparr> status := st \<rparr>],
              statusWrites := statusWrites s @ [(jobId, st)] \<rparr>
      else s)"

definition job_history :: "sys \<Rightarrow> job_id \<Rightarrow> job_status list" where
  "job_history s jobId = map snd (filter (\<lambda>w. fst w = jobId) (statusWrites s))"

subsection \<open>External services\<close>

datatype fetch_result =
    FetchThrows string
  | FetchResponse bool nat "string option" "error + bytes"

datatype gemini_result =
    Generated bytes string
  | GeminiThrows error

datatype put_result =
    PutThrows string
  | Uploaded string string

record gen_env =
  ge_cfg :: config
  ge_date :: clock
  ge_redis :: redis_client
  ge_fetch :: "string \<Rightarrow> fetch_result"
  ge_gemini :: "bytes \<Rightarrow> StylePreset \<Rightarrow> output_format \<Rightarrow> string option \<Rightarrow> gemini_result"
  ge_put :: "string \<Rightarrow> bytes \<Rightarrow> string \<Rightarrow> string \<Rightarrow> put_result"

record gen_request =
  session_userId :: "string option"
  req_json :: "json option"


subsection \<open>The handler\<close>

definition ok_job :: "job_id \<Rightarrow> http_response" where
  "ok_job jobId = json_response (JobIdBody jobId) 200"

definition geminiModelName :: "config \<Rightarrow> string" where
  "geminiModelName cfg =
     (case GEMINI_IMAGE_MODEL cfg of
        None \<Rightarrow> ''gemini-2.5-flash-image-preview''
      | Some m \<Rightarrow> if m = [] then ''gemini-2.5-flash-image-preview'' else m)"

text \<open>Upload of the generated bytes and the transition to COMPLETED (source lines 171-207).\<close>

definition generate_upload ::
  "gen_env \<Rightarrow> job_id \<Rightarrow> bytes \<Rightarrow> string \<Rightarrow> sys \<Rightarrow> (error + http_response) \<times> sys"
where
  "generate_upload env jobId gbytes ctype s =
     (case BLOB_READ_WRITE_TOKEN (ge_cfg env) of
        None \<Rightarrow>
          (let s1 = imageJob_update s jobId FAILED
                      (\<lambda>j. j\<lparr> blockedReason := Some ''UPLOAD_NOT_CONFIGURED'' \<rparr>);
               s2 = recordEvent s1 jobId ''failed''
                      (Some (JObj [(''reason'', JStr ''UPLOAD_NOT_CONFIGURED'')]))
           in (Inr (ok_job jobId), s2))
      | Some token \<Rightarrow>
          if token = [] then
            (let s1 = imageJob_update s jobId FAILED
                        (\<lambda>j. j\<lparr> blockedReason := Some ''UPLOAD_NOT_CONFIGURED'' \<rparr>);
                 s2 = recordEvent s1 jobId ''failed''
                        (Some (JObj [(''reason'', JStr ''UPLOAD_NOT_CONFIGURED'')]))
             in (Inr (ok_job jobId), s2))
          else
            (let ext = extFromContentType ctype;
                 key = ''generated/'' @ toString_nat jobId @ ''.'' @ ext;
                 s1 = recordEvent s jobId ''upload_output_start''
                        (Some (JObj [(''key'', JStr key), (''ext'', JStr ext)]));
                 s2 = s1\<lparr> extCalls := extCalls s1 @ [PutCall key] \<rparr>
             in case ge_put env key gbytes token ctype of
                  PutThrows m \<Rightarrow> (Inl (Error m), s2)
                | Uploaded url pathname \<Rightarrow>
                    (let s3 = recordEvent s2 jobId ''upload_output_success''
                                (Some (JObj [(''url'', JStr url), (''pathname'', JStr pathname)]));
                         s4 = imageJob_update s3 jobId COMPLETED
                                (\<lambda>j. j\<lparr> outputBlobUrl := Some url,
                                        completedAt := Some (epochMs (ge_date env)) \<rparr>);
                         s5 = recordEvent s4 jobId ''completed'' None
                     in (Inr (ok_job jobId), s5))))"

text \<open>The model call with its own error handler (source lines 139-169).\<close>

definition generate_model ::
  "gen_env \<Rightarrow> job_id \<Rightarrow> gen_body \<Rightarrow> bytes \<Rightarrow> sys \<Rightarrow> (error + http_response) \<times> sys"
where
  "generate_model env jobId body inputBytes s =
     (let s1 = recordEvent s jobId ''download_input_success''
                 (Some (JObj [(''bytes'', JNum (of_nat (length inputBytes)))]));
          fmt = orPng (b_outputFormat body);
          s2 = recordEvent s1 jobId ''call_gemini_start''
                 (Some (JObj [(''model'', JStr (geminiModelName (ge_cfg env))),
                              (''outputFormat'', JStr (format_name fmt))]));
          s3 = s2\<lparr> extCalls := extCalls s2 @ [GeminiCall (b_style body)] \<rparr>
      in case ge_gemini env inputBytes (b_style body) fmt (b_promptVariant body) of
           GeminiThrows err \<Rightarrow>
             (case err of
                SafetyBlockedError _ \<Rightarrow>
                  (let s4 = imageJob_update s3 jobId BLOCKED
                              (\<lambda>j. j\<lparr> blockedReason := Some ''SAFETY'' \<rparr>);
                       s5 = recordEvent s4 jobId ''call_gemini_safety_blocked'' None
                   in (Inr (ok_job jobId), s5))
              | Error _ \<Rightarrow>
                  (let s4 = imageJob_update s3 jobId FAILED
                              (\<lambda>j. j\<lparr> blockedReason := Some ''MODEL_ERROR'' \<rparr>);
                       s5 = recordEvent s4 jobId ''failed''
                              (Some (JObj [(''reason'', JStr ''MODEL_ERROR'')]))
                   in (Inr (ok_job jobId), s5)))
         | Generated gbytes ctype \<Rightarrow>
             (let s4 = recordEvent s3 jobId ''call_gemini_success''
                         (Some (JObj [(''contentType'', JStr ctype),
                                      (''bytes'', JNum (of_nat (length gbytes)))]))
              in generate_upload env jobId gbytes ctype s4))"

text \<open>The body of the outer \<open>try\<close> (source lines 128-207): a thrown error is \<open>Inl\<close>.\<close>

definition generate_try ::
  "gen_env \<Rightarrow> job_id \<Rightarrow> gen_body \<Rightarrow> sys \<Rightarrow> (error + http_response) \<times> sys"
where
  "generate_try env jobId body s =
     (let s1 = recordEvent s jobId ''download_input_start''
                 (Some (JObj [(''url'', JStr (b_inputUrl body))]));
          s2 = s1\<lparr> extCalls := extCalls s1 @ [FetchCall (b_inputUrl body)] \<rparr>
      in case ge_fetch env (b_inputUrl body) of
           FetchThrows m \<Rightarrow> (Inl (Error m), s2)
         | FetchResponse ok code ct payload \<Rightarrow>
             if \<not> ok
             then (Inl (Error (''Failed to fetch input image: '' @ toString_nat code)), s2)
             else (case payload of
                     Inl e \<Rightarrow> (Inl e, s2)
                   | Inr inputBytes \<Rightarrow> generate_model env jobId body inputBytes s2))"

text \<open>The transition to PROCESSING and the outer \<open>try\<close>/\<open>catch\<close> (source lines 120-220).\<close>

definition generate_process ::
  "gen_env \<Rightarrow> job_id \<Rightarrow> gen_body \<Rightarrow> sys \<Rightarrow> http_response \<times> sys"
where
  "generate_process env jobId body s =
     (let s1 = imageJob_update s jobId PROCESSING (\<lambda>j. j);
          s2 = recordEvent s1 jobId ''processing'' None
      in case generate_try env jobId body s2 of
           (Inr resp, s3) \<Rightarrow> (resp, s3)
         | (Inl err, s3) \<Rightarrow>
             (let s4 = imageJob_update s3 jobId FAILED
                         (\<lambda>j. j\<lparr> blockedReason := Some ''INPUT_OR_UNKNOWN_ERROR'' \<rparr>);
                  s5 = recordEvent s4 jobId ''failed''
                         (Some (JObj [(''reason'', JStr ''INPUT_OR_UNKNOWN_ERROR''),
                                      (''err'', JStr (error_message err))]))
              in (ok_job jobId, s5)))"

text \<open>Job creation, rate limit and quota (source lines 79-118).\<close>

definition generate_job ::
  "gen_env \<Rightarrow> user_id \<Rightarrow> gen_body \<Rightarrow> sys \<Rightarrow> http_response \<times> sys"
where
  "generate_job env userId body s =
     (let (jobId, s1) = imageJob_create s
            \<lparr> job_userId = userId, inputBlobUrl = b_inputUrl body, style = b_style body,
              promptVariant = b_promptVariant body, status = QUEUED, blockedReason = None,
              outputBlobUrl = None, completedAt = None \<rparr>;
          s2 = recordEvent s1 jobId ''queued''
                 (Some (JObj [(''style'', JStr (style_name (b_style body)))]));
          (rl, s3) = rateLimitWindow (ge_cfg env) (ge_redis env) s2 (rateLimitKey ''gen'' userId) 60 10
      in if \<not> allowed rl then
           (let s4 = imageJob_update s3 jobId FAILED
                       (\<lambda>j. j\<lparr> blockedReason := Some ''RATE_LIMITED'' \<rparr>);
                s5 = recordEvent s4 jobId ''failed''
                       (Some (JObj [(''reason'', JStr ''RATE_LIMITED''),
                                    (''remaining'', JNum (of_int (remaining rl)))]))
            in (ok_job jobId, s5))
         else
           (case decrementQuota (ge_date env) s3 userId of
              (Inl _, s4) \<Rightarrow>
                (let s5 = imageJob_update s4 jobId FAILED
                            (\<lambda>j. j\<lparr> blockedReason := Some ''QUOTA_EXCEEDED'' \<rparr>);
                     s6 = recordEvent s5 jobId ''failed''
                            (Some (JObj [(''reason'', JStr ''QUOTA_EXCEEDED'')]))
                 in (ok_job jobId, s6))
            | (Inr _, s4) \<Rightarrow> generate_process env jobId body s4))"

text \<open>
  \<open>POST /api/generate\<close>. The session carries the user id or nothing; the request body is
  \<open>None\<close> when it is not JSON. Reading the body and validating it are one \<open>try\<close> block.
\<close>

definition parse_request_body :: "(string \<Rightarrow> bool) \<Rightarrow> gen_request \<Rightarrow> gen_body option" where
  "parse_request_body isUrl req =
     (case req_json req of None \<Rightarrow> None | Some j \<Rightarrow> BodySchema_parse isUrl j)"

definition POST_generate ::
  "(string \<Rightarrow> bool) \<Rightarrow> gen_env \<Rightarrow> gen_request \<Rightarrow> sys \<Rightarrow> http_response \<times> sys"
where
  "POST_generate isUrl env req s =
     (if \<not> truthy (session_userId req)
      then (json_response (ErrorBody ''Unauthorized'') 401, s)
      else
        (case session_userId req of
           None \<Rightarrow> (json_response (ErrorBody ''Unauthorized'') 401, s)
         | Some userId \<Rightarrow>
             (case parse_request_body isUrl req of
                None \<Rightarrow> (json_response (ErrorBody ''Invalid request'') 400, s)
              | Some body \<Rightarrow> generate_job env userId body s)))"


section \<open>Download endpoint (app/api/download/[id]/route.ts, lib/watermark.ts)\<close>

text \<open>
  \<open>applyVisibleWatermark\<close> resolves its options, reads the image's size and format,
  computes the font size and the bottom margin, builds an SVG of the image's size with one
  text element, and has the image library composite that SVG over the image at
  \<open>top = 0\<close>, \<open>left = 0\<close> and encode the result in the image's format. The two calls
  into the image library (reading the metadata; compositing and encoding) are the fields
  of \<open>sharp\<close>: decoding, font rendering and pixel blending are the library's, and each
  call may throw. The SVG is kept as its attributes rather than as markup. Numbers are
  exact rationals and \<open>Math.round\<close> rounds halves up.
\<close>

record wm_opts =
  wm_text :: "string option"
  wm_opacity :: "rat option"
  wm_marginPct :: "rat option"
  wm_fontSizePct :: "rat option"
  wm_fill :: "string option"

record image_meta =
  meta_width :: "nat option"
  meta_height :: "nat option"
  meta_format :: "string option"

text \<open>
  The SVG document: its size (also its view box), the standard deviation of the glow
  filter, the opacity of the group, and the text element with its position, anchor, font
  and content.
\<close>

record svg_overlay =
  svg_width :: nat
  svg_height :: nat
  svg_glowStdDeviation :: rat
  svg_opacity :: rat
  svg_textX :: rat
  svg_textY :: int
  svg_textAnchor :: string
  svg_fontFamily :: string
  svg_fontSize :: int
  svg_fill :: string
  svg_text :: string

record sharp =
  sharp_metadata :: "bytes \<Rightarrow> error + image_meta"
  sharp_composite :: "bytes \<Rightarrow> svg_overlay \<Rightarrow> int \<Rightarrow> int \<Rightarrow> string \<Rightarrow> error + bytes"

definition orDefault :: "'a option \<Rightarrow> 'a \<Rightarrow> 'a" where
  "orDefault v d = (case v of None \<Rightarrow> d | Some x \<Rightarrow> x)"

definition js_round :: "rat \<Rightarrow> int" where
  "js_round x = \<lfloor>x + 1 / 2\<rfloor>"

definition replaceAll :: "char \<Rightarrow> string \<Rightarrow> string \<Rightarrow> string" where
  "replaceAll c r s = concat (map (\<lambda>x. if x = c then r else [x]) s)"

definition escapeXml :: "string \<Rightarrow> string" where
  "escapeXml s =
     replaceAll (CHR 0x27) ''&apos;''
       (replaceAll (CHR 0x22) ''&quot;''
         (replaceAll (CHR ''>'') ''&gt;''
           (replaceAll (CHR ''<'') ''&lt;''
             (replaceAll (CHR ''&'') ''&amp;'' s))))"

definition watermark_fontFamily :: string where
  "watermark_fontFamily =
     ''Inter, system-ui, -apple-system, '' @ [CHR 0x27] @ ''Segoe UI'' @ [CHR 0x27]
       @ '', Roboto, Arial, sans-serif''"

definition applyVisibleWatermark :: "sharp \<Rightarrow> bytes \<Rightarrow> wm_opts \<Rightarrow> error + bytes" where
  "applyVisibleWatermark lib input opts =
     (let text = orDefault (wm_text opts) ''touchfeets.com'';
          opacity = min 1 (max 0 (orDefault (wm_opacity opts) (55 / 100)));
          marginPct = orDefault (wm_marginPct opts) (5 / 100);
          fontSizePct = orDefault (wm_fontSizePct opts) (45 / 1000);
          fill = orDefault (wm_fill opts) ''#ffffff''
      in case sharp_metadata lib input of
           Inl e \<Rightarrow> Inl e
         | Inr meta \<Rightarrow>
             (let width = orDefault (meta_width meta) 1024;
                  height = orDefault (meta_height meta) 1024;
                  fontSize = max 16 (js_round (of_nat width * fontSizePct));
                  yMargin = max 8 (js_round (of_nat height * marginPct));
                  svg = \<lparr> svg_width = width, svg_height = height,
                          svg_glowStdDeviation = max (6 / 10) (of_int fontSize * (7 / 100)),
                          svg_opacity = opacity,
                          svg_textX = of_nat width / 2,
                          svg_textY = int height - yMargin,
                          svg_textAnchor = ''middle'',
                          svg_fontFamily = watermark_fontFamily,
                          svg_fontSize = fontSize,
                          svg_fill = fill,
                          svg_text = escapeXml text \<rparr>;
                  format = toLowerCase (orDefault (meta_format meta) ''png'')
              in sharp_composite lib input svg 0 0 format))"

definition download_wm_opts :: wm_opts where
  "download_wm_opts = \<lparr> wm_text = Some ''touchfeets.com'', wm_opacity = Some (55 / 100),
     wm_marginPct = Some (5 / 100), wm_fontSizePct = Some (45 / 1000),
     wm_fill = Some ''#ffffff'' \<rparr>"

definition download_extFromContentType :: "string \<Rightarrow> string" where
  "download_extFromContentType ct =
     (let mime = toLowerCase ct
      in if includes_str mime ''jpeg'' then ''jpg''
         else if includes_str mime ''png'' then ''png''
         else if includes_str mime ''webp'' then ''webp''
         else if includes_str mime ''heic'' then ''heic''
         else if includes_str mime ''heif'' then ''heif''
         else ''png'')"

record download_env =
  de_date :: clock
  de_head :: "string \<Rightarrow> fetch_result"
  de_fetch :: "string \<Rightarrow> fetch_result"
  de_sharp :: sharp

record download_request =
  dl_session_userId :: "string option"
  dl_jobId :: "job_id option"

definition imageJob_findUnique :: "sys \<Rightarrow> job_id \<Rightarrow> image_job option" where
  "imageJob_findUnique s jobId =
     (if jobId < length (imageJobT s) then Some (imageJobT s ! jobId) else None)"

definition detectContentType :: "download_env \<Rightarrow> string \<Rightarrow> string" where
  "detectContentType env url =
     (case de_head env url of
        FetchThrows _ \<Rightarrow> ''image/png''
      | FetchResponse _ _ ct _ \<Rightarrow> if truthy ct then orDefault ct ''image/png'' else ''image/png'')"

definition image_response :: "bytes \<Rightarrow> string \<Rightarrow> string \<Rightarrow> http_response" where
  "image_response outAb contentType filename =
     \<lparr> r_status = 200, r_body = ImageBody outAb,
       r_headers =
         [(''content-type'', contentType),
          (''content-disposition'', ''inline; filename='' @ [CHR 0x22] @ filename @ [CHR 0x22]),
          (''cache-control'', ''private, max-age=0, no-store'')] \<rparr>"

definition download_filename :: "job_id \<Rightarrow> string \<Rightarrow> string" where
  "download_filename jobId contentType =
     ''touchfeets-'' @ toString_nat jobId @ ''.'' @ download_extFromContentType contentType"

text \<open>The part of the handler that serves a ready job (source lines 59-108).\<close>

definition download_serve ::
  "download_env \<Rightarrow> sys \<Rightarrow> user_id \<Rightarrow> job_id \<Rightarrow> string \<Rightarrow> error + http_response"
where
  "download_serve env s userId jobId url =
     (let contentType = detectContentType env url
      in case de_fetch env url of
           FetchThrows m \<Rightarrow> Inl (Error m)
         | FetchResponse ok code ct payload \<Rightarrow>
             if \<not> ok then Inr (json_response (ErrorBody ''Failed to fetch output image'') 502)
             else
               (case payload of
                  Inl e \<Rightarrow> Inl e
                | Inr arrayBuf \<Rightarrow>
                    (let exempt = isWatermarkExempt (de_date env) s userId;
                         out = (if \<not> exempt
                                then applyVisibleWatermark (de_sharp env) arrayBuf download_wm_opts
                                else Inr arrayBuf);
                         filename = download_filename jobId contentType
                     in case out of
                          Inl e \<Rightarrow> Inl e
                        | Inr outAb \<Rightarrow> Inr (image_response outAb contentType filename))))"

text \<open>\<open>GET /api/download/[id]\<close>: \<open>Inl\<close> is an error the handler lets escape.\<close>

definition GET_download ::
  "download_env \<Rightarrow> download_request \<Rightarrow> sys \<Rightarrow> error + http_response"
where
  "GET_download env req s =
     (if \<not> truthy (dl_session_userId req)
      then Inr (json_response (ErrorBody ''Unauthorized'') 401)
      else
        (let userId = orDefault (dl_session_userId req) []
         in case dl_jobId req of
              None \<Rightarrow> Inr (json_response (ErrorBody ''Missing job id'') 400)
            | Some jobId \<Rightarrow>
                (case imageJob_findUnique s jobId of
                   None \<Rightarrow> Inr (json_response (ErrorBody ''Not found'') 404)
                 | Some job \<Rightarrow>
                     if job_userId job \<noteq> userId
                     then Inr (json_response (ErrorBody ''Forbidden'') 403)
                     else if \<not> truthy (outputBlobUrl job) \<or> status job \<noteq> COMPLETED
                     then Inr (json_response (ErrorBody ''Not ready'') 409)
                     else download_serve env s userId jobId (orDefault (outputBlobUrl job) []))))"


section \<open>Billing webhook (app/api/stripe/webhook/route.ts)\<close>

text \<open>
  The billing provider's objects, reduced to the fields the handler reads. A reference to
  a customer or a subscription (an id or an expanded object) is the id it resolves to.
  The provider pairs each event type with its kind of object; an event whose object is
  of another kind carries none of the fields its branch reads and is a no-op.
\<close>

record stripe_subscription =
  ss_id :: string
  ss_status :: string
  ss_customer :: "string option"
  ss_price0 :: "string option"
  ss_current_period_start :: "nat option"
  ss_current_period_end :: "nat option"

datatype stripe_object =
    CheckoutSession "string option"
  | SubscriptionObject stripe_subscription
  | InvoiceObject "string option"
  | OtherObject

record stripe_event =
  ev_id :: string
  ev_type :: string
  ev_object :: stripe_object

record webhook_env =
  we_cfg :: config
  we_date :: clock
  we_redis :: redis_client
  we_constructEvent :: "string \<Rightarrow> string \<Rightarrow> string \<Rightarrow> error + stripe_event"
  we_retrieve :: "string \<Rightarrow> error + stripe_subscription"

record webhook_request =
  wr_signature :: "string option"
  wr_rawBody :: string

definition recordWebhookEvent :: "sys \<Rightarrow> stripe_event \<Rightarrow> bool \<times> sys" where
  "recordWebhookEvent s event =
     (case webhookEventT s (ev_id event) of
        Some _ \<Rightarrow> (False, s)
      | None \<Rightarrow>
          (True, s\<lparr> webhookEventT := (webhookEventT s)(ev_id event \<mapsto>
                       \<lparr> we_type = ev_type event, we_status = ''received'',
                         we_processedAt = None \<rparr>) \<rparr>))"

definition markProcessed :: "clock \<Rightarrow> sys \<Rightarrow> string \<Rightarrow> string \<Rightarrow> sys" where
  "markProcessed date s eventId st =
     (case webhookEventT s eventId of
        None \<Rightarrow> s
      | Some r \<Rightarrow>
          s\<lparr> webhookEventT := (webhookEventT s)(eventId \<mapsto>
                r\<lparr> we_status := st, we_processedAt := Some (epochMs date) \<rparr>) \<rparr>)"

text \<open>Epoch seconds to a date; an absent or zero value gives no date.\<close>

definition periodDate :: "nat option \<Rightarrow> nat option" where
  "periodDate v = (case v of None \<Rightarrow> None | Some n \<Rightarrow> if n = 0 then None else Some (n * 1000))"

definition fetchSubscriptionDetails ::
  "webhook_env \<Rightarrow> string \<Rightarrow> error + entitlement_opts"
where
  "fetchSubscriptionDetails env subscriptionId =
     (case we_retrieve env subscriptionId of
        Inl e \<Rightarrow> Inl e
      | Inr sub \<Rightarrow>
          Inr \<lparr> eo_userId = [], eo_status = ss_status sub,
                eo_stripeCustomerId = ss_customer sub,
                eo_stripeSubscriptionId = Some (ss_id sub),
                eo_stripePriceId = ss_price0 sub,
                eo_currentPeriodStart = periodDate (ss_current_period_start sub),
                eo_currentPeriodEnd = periodDate (ss_current_period_end sub),
                eo_anchorUtcDay = Some 1 \<rparr>)"

definition findUserIdByCustomerId :: "sys \<Rightarrow> string option \<Rightarrow> user_id option" where
  "findUserIdByCustomerId s customerId =
     (if \<not> truthy customerId then None
      else (case find (\<lambda>r. stripeCustomerId r = customerId) (subscriptionT s) of
              None \<Rightarrow> None
            | Some r \<Rightarrow> Some (sub_userId r)))"

text \<open>
  The branches for \<open>checkout.session.completed\<close> and \<open>invoice.payment_failed\<close>: both
  resolve the subscription by id and sync the entitlements, the first with the
  subscription's own status, the second with \<open>past_due\<close>.
\<close>

definition syncBySubscriptionId ::
  "webhook_env \<Rightarrow> string option \<Rightarrow> string option \<Rightarrow> sys \<Rightarrow> (error + unit) \<times> sys"
where
  "syncBySubscriptionId env subId statusOverride s =
     (if \<not> truthy subId then (Inr (), s)
      else
        (case fetchSubscriptionDetails env (orDefault subId []) of
           Inl e \<Rightarrow> (Inl e, s)
         | Inr details \<Rightarrow>
             (case findUserIdByCustomerId s (eo_stripeCustomerId details) of
                None \<Rightarrow> (Inr (), s)
              | Some userId \<Rightarrow>
                  if userId = [] then (Inr (), s)
                  else (Inr (),
                        snd (applyEntitlementsForSubscription (we_cfg env) (we_date env) s
                               (details\<lparr> eo_userId := userId,
                                         eo_status := orDefault statusOverride (eo_status details) \<rparr>))))))"

definition syncFromSubscription ::
  "webhook_env \<Rightarrow> stripe_subscription \<Rightarrow> sys \<Rightarrow> (error + unit) \<times> sys"
where
  "syncFromSubscription env sub s =
     (let priceId = ss_price0 sub;
          customerId = ss_customer sub
      in case findUserIdByCustomerId s customerId of
           None \<Rightarrow> (Inr (), s)
         | Some userId \<Rightarrow>
             if userId = [] then (Inr (), s)
             else (Inr (),
                   snd (applyEntitlementsForSubscription (we_cfg env) (we_date env) s
                          \<lparr> eo_userId = userId, eo_status = ss_status sub,
                            eo_stripeCustomerId = customerId,
                            eo_stripeSubscriptionId = Some (ss_id sub),
                            eo_stripePriceId = priceId,
                            eo_currentPeriodStart = periodDate (ss_current_period_start sub),
                            eo_currentPeriodEnd = periodDate (ss_current_period_end sub),
                            eo_anchorUtcDay = Some 1 \<rparr>)))"

text \<open>The \<open>switch\<close> on the event type (source lines 121-201).\<close>

definition webhook_dispatch ::
  "webhook_env \<Rightarrow> stripe_event \<Rightarrow> sys \<Rightarrow> (error + unit) \<times> sys"
where
  "webhook_dispatch env event s =
     (if ev_type event = ''checkout.session.completed'' then
        (case ev_object event of
           CheckoutSession subId \<Rightarrow> syncBySubscriptionId env subId None s
         | _ \<Rightarrow> (Inr (), s))
      else if ev_type event = ''customer.subscription.updated''
              \<or> ev_type event = ''customer.subscription.deleted'' then
        (case ev_object event of
           SubscriptionObject sub \<Rightarrow> syncFromSubscription env sub s
         | _ \<Rightarrow> (Inr (), s))
      else if ev_type event = ''invoice.payment_failed'' then
        (case ev_object event of
           InvoiceObject subId \<Rightarrow> syncBySubscriptionId env subId (Some ''past_due'') s
         | _ \<Rightarrow> (Inr (), s))
      else (Inr (), s))"

text \<open>Deduplication and processing of a verified event (source lines 107-209).\<close>

definition webhook_process ::
  "webhook_env \<Rightarrow> stripe_event \<Rightarrow> sys \<Rightarrow> http_response \<times> sys"
where
  "webhook_process env event s =
     (let (acquired, s1) = tryAcquireIdempotency (we_cfg env) (we_redis env) s
                             (stripeEventLockKey (ev_id event)) (24 * 60 * 60)
      in if \<not> acquired
         then (json_response (WebhookOkBody True (Some ''redis'')) 200, s1)
         else
           (let (isNew, s2) = recordWebhookEvent s1 event
            in if \<not> isNew
               then (json_response (WebhookOkBody True None) 200, s2)
               else
                 (case webhook_dispatch env event s2 of
                    (Inr _, s3) \<Rightarrow>
                      (json_response (WebhookOkBody False None) 200,
                       markProcessed (we_date env) s3 (ev_id event) ''processed'')
                  | (Inl err, s3) \<Rightarrow>
                      (json_response (ErrorBody (error_message err)) 500,
                       markProcessed (we_date env) s3 (ev_id event) ''failed''))))"

definition POST_webhook ::
  "webhook_env \<Rightarrow> webhook_request \<Rightarrow> sys \<Rightarrow> http_response \<times> sys"
where
  "POST_webhook env req s =
     (if \<not> truthy (wr_signature req)
      then (json_response (ErrorBody ''Missing Stripe-Signature header'') 400, s)
      else if \<not> truthy (STRIPE_WEBHOOK_SECRET (we_cfg env))
      then (json_response (ErrorBody ''Missing STRIPE_WEBHOOK_SECRET'') 500, s)
      else
        (case we_constructEvent env (wr_rawBody req) (orDefault (wr_signature req) [])
                (orDefault (STRIPE_WEBHOOK_SECRET (we_cfg env)) []) of
           Inl err \<Rightarrow>
             (json_response (ErrorBody (''Invalid webhook: '' @ error_message err)) 400, s)
         | Inr event \<Rightarrow> webhook_process env event s))"

section \<open>Usage endpoint (app/api/usage/route.ts)\<close>

text \<open>
  The tier shown is that of the user's most recently updated active or trialing
  subscription (the first of them in the table when several were updated at the same
  time). The quota row of the month is created when it is missing.
\<close>

fun latest_subscription :: "subscription list \<Rightarrow> subscription option" where
  "latest_subscription [] = None"
| "latest_subscription (r # rs) =
     (case latest_subscription rs of
        None \<Rightarrow> Some r
      | Some r' \<Rightarrow> if sub_updatedAt r < sub_updatedAt r' then Some r' else Some r)"

definition GET_usage :: "clock \<Rightarrow> string option \<Rightarrow> sys \<Rightarrow> http_response \<times> sys" where
  "GET_usage date session s =
     (case session of
        None \<Rightarrow> (json_response (ErrorBody ''Unauthorized'') 401, s)
      | Some userId \<Rightarrow>
          (let sub = latest_subscription
                       (filter (\<lambda>r. sub_userId r = userId
                                     \<and> (sub_status r = ''active'' \<or> sub_status r = ''trialing''))
                          (subscriptionT s));
               m = monthUtc date;
               (q, s1) = getOrCreateQuota s userId m
           in (json_response
                 (UsageBody m (case sub of None \<Rightarrow> FREE | Some r \<Rightarrow> planTier r)
                    (freeRemaining q) (paidRemaining q) (watermarkExempt q)) 200, s1)))"

section \<open>Runs of the system\<close>

text \<open>
  The requests that change the state, and a run of the system as a sequence of them.
  The download and polling endpoints only read.
\<close>

datatype request =
    Generate gen_env gen_request
  | Webhook webhook_env webhook_request
  | Usage clock "string option"

definition handle :: "(string \<Rightarrow> bool) \<Rightarrow> sys \<Rightarrow> request \<Rightarrow> sys" where
  "handle isUrl s r =
     (case r of
        Generate env req \<Rightarrow> snd (POST_generate isUrl env req s)
      | Webhook env req \<Rightarrow> snd (POST_webhook env req s)
      | Usage date session \<Rightarrow> snd (GET_usage date session s))"

definition run :: "(string \<Rightarrow> bool) \<Rightarrow> request list \<Rightarrow> sys \<Rightarrow> sys" where
  "run isUrl rs s = foldl (handle isUrl) s rs"

text \<open>
  Overlapping \<open>decrementQuota\<close> calls (concurrent generation requests): the calls in
  flight, and a schedule that names, step by step, the call whose next store call runs.
\<close>

record dec_call =
  dc_date :: clock
  dc_userId :: user_id
  dc_state :: dec_state

definition sched_step :: "dec_call list \<times> sys \<Rightarrow> nat \<Rightarrow> dec_call list \<times> sys" where
  "sched_step cs i =
     (let (calls, s) = cs
      in if i < length calls then
           (let c = calls ! i;
                (st, s') = dec_step (dc_date c) (dc_userId c) (dc_state c) s
            in (calls[i := c\<lparr> dc_state := st \<rparr>], s'))
         else (calls, s))"

definition sched_run :: "dec_call list \<Rightarrow> sys \<Rightarrow> nat list \<Rightarrow> dec_call list \<times> sys" where
  "sched_run calls s schedule = foldl sched_step (calls, s) schedule"

section \<open>Predicates used in the properties\<close>

text \<open>Every quota row has non-negative counters.\<close>

definition quota_nonneg :: "sys \<Rightarrow> bool" where
  "quota_nonneg s =
     (\<forall>k q. quotaT s k = Some q \<longrightarrow> 0 \<le> freeRemaining q \<and> 0 \<le> paidRemaining q)"

text \<open>
  The status history of a job is one of the complete lifecycles: a failure before
  processing starts, or processing followed by one of the three terminal statuses.
\<close>

definition lifecycles :: "job_status list set" where
  "lifecycles = {[QUEUED, FAILED], [QUEUED, PROCESSING, COMPLETED],
                 [QUEUED, PROCESSING, BLOCKED], [QUEUED, PROCESSING, FAILED]}"

text \<open>
  The lifecycle as documented (QUEUED, then PROCESSING, then one terminal status): the
  steps it allows, and a history all of whose steps are allowed.
\<close>

definition lifecycle_step :: "job_status \<Rightarrow> job_status \<Rightarrow> bool" where
  "lifecycle_step a b =
     ((a = QUEUED \<and> b = PROCESSING)
      \<or> (a = PROCESSING \<and> (b = COMPLETED \<or> b = BLOCKED \<or> b = FAILED)))"

fun chain_ok :: "job_status list \<Rightarrow> bool" where
  "chain_ok [] = True"
| "chain_ok [a] = True"
| "chain_ok (a # b # rest) = (lifecycle_step a b \<and> chain_ok (b # rest))"

text \<open>Every status write belongs to a job row, and every job has a complete lifecycle.\<close>

definition jobs_inv :: "sys \<Rightarrow> bool" where
  "jobs_inv s =
     ((\<forall>w \<in> set (statusWrites s). fst w < length (imageJobT s))
      \<and> (\<forall>j < length (imageJobT s). job_history s j \<in> lifecycles))"

text \<open>The delivery passes signature verification and carries the given event.\<close>

definition verified :: "webhook_env \<Rightarrow> webhook_request \<Rightarrow> stripe_event \<Rightarrow> bool" where
  "verified env req event =
     (truthy (wr_signature req) \<and> truthy (STRIPE_WEBHOOK_SECRET (we_cfg env))
      \<and> we_constructEvent env (wr_rawBody req) (orDefault (wr_signature req) [])
            (orDefault (STRIPE_WEBHOOK_SECRET (we_cfg env)) []) = Inr event)"

text \<open>A held idempotency lock belongs to a recorded webhook event.\<close>

definition lock_inv :: "sys \<Rightarrow> bool" where
  "lock_inv s =
     (\<forall>eventId. redisKV s (stripeEventLockKey eventId) \<noteq> None
        \<longrightarrow> webhookEventT s eventId \<noteq> None)"

text \<open>
  What a stage of the generation handler writes for its job: the given statuses, in
  order, no new job row, and nothing in the billing tables.
\<close>

definition writes :: "sys \<Rightarrow> sys \<Rightarrow> job_id \<Rightarrow> job_status list \<Rightarrow> bool" where
  "writes s s' jobId sts =
     (statusWrites s' = statusWrites s @ map (Pair jobId) sts
      \<and> length (imageJobT s') = length (imageJobT s)
      \<and> webhookEventT s' = webhookEventT s \<and> subscriptionT s' = subscriptionT s
      \<and> auditLogT s' = auditLogT s)"

text \<open>
  What the generation handler writes for the job it creates: a new row, the given
  statuses for it, and nothing in the billing tables.
\<close>

definition created :: "sys \<Rightarrow> sys \<Rightarrow> job_status list \<Rightarrow> bool" where
  "created s s' h =
     (statusWrites s' = statusWrites s @ map (Pair (length (imageJobT s))) h
      \<and> length (imageJobT s') = Suc (length (imageJobT s))
      \<and> webhookEventT s' = webhookEventT s \<and> subscriptionT s' = subscriptionT s
      \<and> auditLogT s' = auditLogT s)"

text \<open>The job table and the status history are the same in both states.\<close>

definition same_jobs :: "sys \<Rightarrow> sys \<Rightarrow> bool" where
  "same_jobs s s' = (statusWrites s' = statusWrites s \<and> imageJobT s' = imageJobT s)"

section \<open>Example configuration and states\<close>

definition cfg0 :: config where
  "cfg0 = \<lparr> PRICE_ID_BASIC_50 = Some ''price_basic'', PRICE_ID_PLUS_200 = Some ''price_plus'',
     PRICE_ID_PRO_1000 = Some ''price_pro'', UPSTASH_REDIS_REST_URL = Some ''https://kv'',
     UPSTASH_REDIS_REST_TOKEN = Some ''token'', BLOB_READ_WRITE_TOKEN = Some ''blob'',
     STRIPE_WEBHOOK_SECRET = Some ''whsec'', GEMINI_IMAGE_MODEL = None \<rparr>"

definition date0 :: clock where
  "date0 = \<lparr> utcFullYear = 2025, utcMonth = 0, epochMs = 1736000000000 \<rparr>"

definition client_ok :: redis_client where
  "client_ok = \<lparr> incr_throws = False, expire_throws = False, ttl_throws = False,
     set_throws = False \<rparr>"

text \<open>A paid user in the middle of the month: two paid and five free generations left.\<close>

definition quota_paid :: quota where
  "quota_paid = \<lparr> q_userId = ''u'', q_monthUtc = monthUtc date0, freeRemaining = 5,
     paidRemaining = 2, watermarkExempt = True \<rparr>"

definition sys_paid :: sys where
  "sys_paid = init_sys\<lparr> quotaT := [(''u'', monthUtc date0) \<mapsto> quota_paid] \<rparr>"

text \<open>
  A paid user with one generation left, two overlapping calls of that user, and the row
  with a negative counter.
\<close>

definition quota_last :: quota where
  "quota_last = \<lparr> q_userId = ''u'', q_monthUtc = monthUtc date0, freeRemaining = 0,
     paidRemaining = 1, watermarkExempt = True \<rparr>"

definition sys_last :: sys where
  "sys_last = init_sys\<lparr> quotaT := [(''u'', monthUtc date0) \<mapsto> quota_last] \<rparr>"

definition two_calls :: "dec_call list" where
  "two_calls = [\<lparr> dc_date = date0, dc_userId = ''u'', dc_state = DecFind \<rparr>,
                \<lparr> dc_date = date0, dc_userId = ''u'', dc_state = DecFind \<rparr>]"

definition quota_overdrawn :: quota where
  "quota_overdrawn = \<lparr> q_userId = ''u'', q_monthUtc = monthUtc date0, freeRemaining = 0,
     paidRemaining = - 1, watermarkExempt = True \<rparr>"

definition sys_overdrawn :: sys where
  "sys_overdrawn = init_sys\<lparr> quotaT := [(''u'', monthUtc date0) \<mapsto> quota_overdrawn] \<rparr>"

text \<open>A user who has used up the month, and the same user at the rate limit.\<close>

definition quota_exhausted :: quota where
  "quota_exhausted = \<lparr> q_userId = ''u'', q_monthUtc = monthUtc date0, freeRemaining = 0,
     paidRemaining = 0, watermarkExempt = False \<rparr>"

definition sys_exhausted :: sys where
  "sys_exhausted = init_sys\<lparr> quotaT := [(''u'', monthUtc date0) \<mapsto> quota_exhausted] \<rparr>"

definition sys_limited :: sys where
  "sys_limited = sys_exhausted\<lparr> redisKV := [rateLimitKey ''gen'' ''u'' \<mapsto> (10, Some 30)] \<rparr>"

text \<open>An environment in which every external service answers, and two requests.\<close>

definition env_gen :: gen_env where
  "env_gen = \<lparr> ge_cfg = cfg0, ge_date = date0, ge_redis = client_ok,
     ge_fetch = (\<lambda>url. FetchResponse True 200 (Some ''image/jpeg'') (Inr [1, 2, 3])),
     ge_gemini = (\<lambda>input st fmt variant. Generated [4, 5] ''image/png''),
     ge_put = (\<lambda>key payload token ct. Uploaded (''https://blob/'' @ key) key) \<rparr>"

definition body_ok :: gen_body where
  "body_ok = \<lparr> b_inputUrl = ''https://blob/uploads/a.jpg'', b_style = GOTHIC,
     b_promptVariant = None, b_outputFormat = None \<rparr>"

definition req_ok :: gen_request where
  "req_ok = \<lparr> session_userId = Some ''u'',
     req_json = Some (JObj [(''inputUrl'', JStr ''https://blob/uploads/a.jpg''),
                            (''style'', JStr ''GOTHIC'')]) \<rparr>"

definition req_baroque :: gen_request where
  "req_baroque = \<lparr> session_userId = Some ''u'',
     req_json = Some (JObj [(''inputUrl'', JStr ''https://blob/uploads/a.jpg''),
                            (''style'', JStr ''BAROQUE'')]) \<rparr>"

text \<open>A completed job, and a download of it.\<close>

definition job_done :: image_job where
  "job_done = \<lparr> job_userId = ''u'', inputBlobUrl = ''https://blob/uploads/a.jpg'', style = GOTHIC,
     promptVariant = None, status = COMPLETED, blockedReason = None,
     outputBlobUrl = Some ''https://blob/generated/0.png'', completedAt = Some 1736000000000 \<rparr>"

definition sys_done :: sys where
  "sys_done = init_sys\<lparr> imageJobT := [job_done], statusWrites := [(0, QUEUED), (0, PROCESSING), (0, COMPLETED)] \<rparr>"

text \<open>
  An image library for the examples: every image is a 1000 by 800 PNG, and compositing
  appends one byte when the overlay is the text \<open>touchfeets.com\<close>, anchored in the middle
  at half the width, 40 pixels above the bottom edge, at opacity 0.55.
\<close>

definition sharp_example :: sharp where
  "sharp_example =
     \<lparr> sharp_metadata = (\<lambda>input. Inr \<lparr> meta_width = Some 1000, meta_height = Some 800,
                                          meta_format = Some ''png'' \<rparr>),
       sharp_composite = (\<lambda>input svg top left fmt.
          if svg_text svg = ''touchfeets.com'' \<and> svg_textAnchor svg = ''middle''
             \<and> svg_textX svg = 500 \<and> svg_textY svg = 760 \<and> svg_opacity svg = 55 / 100
             \<and> svg_fontSize svg = 45 \<and> top = 0 \<and> left = 0 \<and> fmt = ''png''
          then Inr (input @ [255])
          else Inl (Error ''unexpected overlay'')) \<rparr>"

definition env_dl :: download_env where
  "env_dl = \<lparr> de_date = date0,
     de_head = (\<lambda>url. FetchResponse True 200 (Some ''image/png'') (Inr [])),
     de_fetch = (\<lambda>url. FetchResponse True 200 (Some ''image/png'') (Inr [4, 5])),
     de_sharp = sharp_example \<rparr>"

definition req_dl :: download_request where
  "req_dl = \<lparr> dl_session_userId = Some ''u'', dl_jobId = Some 0 \<rparr>"

text \<open>A cancellation and an upgrade, as the entitlement sync receives them.\<close>

definition opts_cancel :: entitlement_opts where
  "opts_cancel = \<lparr> eo_userId = ''u'', eo_status = ''canceled'',
     eo_stripeCustomerId = Some ''cus_1'', eo_stripeSubscriptionId = Some ''sub_1'',
     eo_stripePriceId = Some ''price_basic'', eo_currentPeriodStart = None,
     eo_currentPeriodEnd = None, eo_anchorUtcDay = Some 1 \<rparr>"

definition opts_upgrade :: entitlement_opts where
  "opts_upgrade = \<lparr> eo_userId = ''u'', eo_status = ''active'',
     eo_stripeCustomerId = Some ''cus_1'', eo_stripeSubscriptionId = Some ''sub_1'',
     eo_stripePriceId = Some ''price_plus'', eo_currentPeriodStart = None,
     eo_currentPeriodEnd = None, eo_anchorUtcDay = Some 1 \<rparr>"

text \<open>A customer known to the subscription table, and a subscription update for them.\<close>

definition sys_sub :: sys where
  "sys_sub = init_sys\<lparr> subscriptionT :=
     [\<lparr> sub_userId = ''u'', sub_status = ''incomplete'', planTier = FREE,
        stripeCustomerId = Some ''cus_1'', stripeSubscriptionId = Some ''sub_1'',
        stripePriceId = None, currentPeriodStart = None, currentPeriodEnd = None,
        anchorUtcDay = None, sub_updatedAt = 1735000000000 \<rparr>] \<rparr>"

definition event_upd :: stripe_event where
  "event_upd = \<lparr> ev_id = ''evt_1'', ev_type = ''customer.subscription.updated'',
     ev_object = SubscriptionObject
       \<lparr> ss_id = ''sub_1'', ss_status = ''active'', ss_customer = Some ''cus_1'',
         ss_price0 = Some ''price_basic'', ss_current_period_start = None,
         ss_current_period_end = None \<rparr> \<rparr>"

definition env_wh :: webhook_env where
  "env_wh = \<lparr> we_cfg = cfg0, we_date = date0, we_redis = client_ok,
     we_constructEvent = (\<lambda>raw sig secret. Inr event_upd),
     we_retrieve = (\<lambda>i. Inl (Error ''not used'')) \<rparr>"

definition req_wh :: webhook_request where
  "req_wh = \<lparr> wr_signature = Some ''t=1,v1=abc'', wr_rawBody = ''{}'' \<rparr>"

section \<open>Properties of the quota ledger\<close>

lemma getOrCreateQuota_row:
  "getOrCreateQuota s userId m = (q, s1) \<Longrightarrow> quotaT s1 (userId, m) = Some q"
  by (auto simp: getOrCreateQuota_def Let_def split: option.splits)

lemma getOrCreateQuota_table:
  "getOrCreateQuota s userId m = (q, s1) \<Longrightarrow> quotaT s1 = (quotaT s)((userId, m) \<mapsto> q)"
  by (auto simp: getOrCreateQuota_def Let_def split: option.splits)

text \<open>
  C3 (as the code has it). \<open>decrementQuota\<close> consumes the paid allowance first and the
  free allowance second, for every row \<open>q\<close> of the user's current month (created on first
  use): if \<open>paidRemaining\<close> is positive, only \<open>paidRemaining\<close> goes down by one; otherwise,
  if \<open>freeRemaining\<close> is positive, only \<open>freeRemaining\<close> goes down by one; and the call
  throws the quota-exceeded error, writing nothing, exactly when neither counter is
  positive. For counters that are not negative that is exactly when both are zero.
\<close>

theorem decrementQuota_paid_then_free:
  assumes "getOrCreateQuota s userId (monthUtc date) = (q, s1)"
    and "decrementQuota date s userId = (res, s')"
  shows "(0 < paidRemaining q \<longrightarrow>
            res = Inr (q\<lparr> paidRemaining := paidRemaining q - 1 \<rparr>)
          \<and> quotaT s' = (quotaT s)((userId, monthUtc date) \<mapsto>
                            q\<lparr> paidRemaining := paidRemaining q - 1 \<rparr>))
       \<and> (paidRemaining q \<le> 0 \<and> 0 < freeRemaining q \<longrightarrow>
            res = Inr (q\<lparr> freeRemaining := freeRemaining q - 1 \<rparr>)
          \<and> quotaT s' = (quotaT s)((userId, monthUtc date) \<mapsto>
                            q\<lparr> freeRemaining := freeRemaining q - 1 \<rparr>))
       \<and> (isl res \<longleftrightarrow> paidRemaining q \<le> 0 \<and> freeRemaining q \<le> 0)
       \<and> (isl res \<longrightarrow> res = Inl (Error ''Quota exceeded for the current month'')
                        \<and> quotaT s' = quotaT s1)
       \<and> (0 \<le> paidRemaining q \<and> 0 \<le> freeRemaining q \<longrightarrow>
            (isl res \<longleftrightarrow> paidRemaining q = 0 \<and> freeRemaining q = 0))"
  using assms getOrCreateQuota_row[OF assms(1)] getOrCreateQuota_table[OF assms(1)]
  by (auto simp: decrementQuota_def quota_update_def Let_def split: if_splits)

theorem decrementQuota_paid_then_free_witness:
  "fst (decrementQuota date0 sys_paid ''u'') = Inr (quota_paid\<lparr> paidRemaining := 1 \<rparr>)
   \<and> \<not> isl (fst (decrementQuota date0 sys_paid ''u''))
   \<and> isl (fst (decrementQuota date0 sys_exhausted ''u''))"
proof -
  have g: "getOrCreateQuota sys_paid ''u'' (monthUtc date0) = (quota_paid, sys_paid)"
    by (simp add: getOrCreateQuota_def sys_paid_def)
  have d: "decrementQuota date0 sys_paid ''u'' =
             (fst (decrementQuota date0 sys_paid ''u''), snd (decrementQuota date0 sys_paid ''u''))"
    by simp
  have g0: "getOrCreateQuota sys_exhausted ''u'' (monthUtc date0) = (quota_exhausted, sys_exhausted)"
    by (simp add: getOrCreateQuota_def sys_exhausted_def)
  have d0: "decrementQuota date0 sys_exhausted ''u'' =
             (fst (decrementQuota date0 sys_exhausted ''u''),
              snd (decrementQuota date0 sys_exhausted ''u''))"
    by simp
  show ?thesis
    using decrementQuota_paid_then_free[OF g d] decrementQuota_paid_then_free[OF g0 d0]
    by (simp add: quota_paid_def quota_exhausted_def)
qed

text \<open>
  The claim as stated fails: on a row with \<open>paidRemaining = -1\<close> and \<open>freeRemaining = 0\<close>
  the call throws although not both counters are zero.
\<close>

theorem decrementQuota_counterexample:
  "quotaT sys_overdrawn (''u'', monthUtc date0) = Some quota_overdrawn
   \<and> paidRemaining quota_overdrawn = - 1 \<and> freeRemaining quota_overdrawn = 0
   \<and> fst (decrementQuota date0 sys_overdrawn ''u'')
        = Inl (Error ''Quota exceeded for the current month'')"
  by (simp add: decrementQuota_def getOrCreateQuota_def sys_overdrawn_def quota_overdrawn_def
        Let_def)

lemma getOrCreateQuota_nonneg:
  "quota_nonneg s \<Longrightarrow> quota_nonneg (snd (getOrCreateQuota s userId m))"
  by (auto simp: getOrCreateQuota_def Let_def quota_nonneg_def PLAN_DEFAULTS_def
           split: option.splits)

lemma getOrCreateQuota_fst_nonneg:
  "quota_nonneg s \<Longrightarrow>
     0 \<le> freeRemaining (fst (getOrCreateQuota s userId m))
     \<and> 0 \<le> paidRemaining (fst (getOrCreateQuota s userId m))"
  by (auto simp: getOrCreateQuota_def Let_def quota_nonneg_def PLAN_DEFAULTS_def
           split: option.splits)

lemma quota_update_nonneg:
  assumes "quota_nonneg s"
    and "\<And>r. quotaT s k = Some r \<Longrightarrow> 0 \<le> freeRemaining (f r) \<and> 0 \<le> paidRemaining (f r)"
  shows "quota_nonneg (snd (quota_update s k f))"
  using assms by (auto simp: quota_update_def quota_nonneg_def split: option.splits)

lemma decrementQuota_nonneg:
  assumes "quota_nonneg s"
  shows "quota_nonneg (snd (decrementQuota date s userId))"
proof -
  obtain q s1 where g: "getOrCreateQuota s userId (monthUtc date) = (q, s1)"
    by (cases "getOrCreateQuota s userId (monthUtc date)")
  have inv1: "quota_nonneg s1"
    using getOrCreateQuota_nonneg[OF assms, of userId "monthUtc date"] g by simp
  have row: "quotaT s1 (userId, monthUtc date) = Some q"
    by (rule getOrCreateQuota_row[OF g])
  have q0: "0 \<le> freeRemaining q \<and> 0 \<le> paidRemaining q"
    using inv1 row by (auto simp: quota_nonneg_def)
  show ?thesis
  proof (cases "0 < paidRemaining q")
    case True
    have "quota_nonneg (snd (quota_update s1 (userId, monthUtc date)
             (\<lambda>r. r\<lparr> paidRemaining := paidRemaining r - 1 \<rparr>)))"
      by (rule quota_update_nonneg[OF inv1]) (use row True q0 in auto)
    with True g show ?thesis by (simp add: decrementQuota_def)
  next
    case False
    show ?thesis
    proof (cases "0 < freeRemaining q")
      case True
      have "quota_nonneg (snd (quota_update s1 (userId, monthUtc date)
               (\<lambda>r. r\<lparr> freeRemaining := freeRemaining r - 1 \<rparr>)))"
        by (rule quota_update_nonneg[OF inv1]) (use row True q0 in auto)
      with True False g show ?thesis by (simp add: decrementQuota_def)
    next
      case exhausted: False
      with False g inv1 show ?thesis by (simp add: decrementQuota_def)
    qed
  qed
qed

lemma monthlyQuota_nonneg: "0 \<le> monthlyQuota (PLAN_DEFAULTS t)"
  by (cases t) (simp_all add: PLAN_DEFAULTS_def)

text \<open>The quota table after an entitlement sync: only the user's current-month row changes.\<close>

lemma applyEntitlements_quotaT:
  "quotaT (snd (applyEntitlementsForSubscription cfg date s opts)) =
     (let tier = resolveTier cfg opts; m = monthUtc date;
          q = fst (getOrCreateQuota s (eo_userId opts) m)
      in (quotaT s)((eo_userId opts, m) \<mapsto>
           (if tier = FREE
            then q\<lparr> freeRemaining := min (freeRemaining q) 5, paidRemaining := 0,
                    watermarkExempt := False \<rparr>
            else q\<lparr> paidRemaining := monthlyQuota (PLAN_DEFAULTS tier),
                    watermarkExempt := pd_watermarkExempt (PLAN_DEFAULTS tier) \<rparr>)))"
  by (auto simp: applyEntitlementsForSubscription_def getOrCreateQuota_def quota_update_def
                 Let_def PLAN_DEFAULTS_def
           split: option.splits prod.splits)

lemma applyEntitlements_nonneg:
  "quota_nonneg s \<Longrightarrow> quota_nonneg (snd (applyEntitlementsForSubscription cfg date s opts))"
  using getOrCreateQuota_fst_nonneg[of s "eo_userId opts" "monthUtc date"]
        monthlyQuota_nonneg[of "resolveTier cfg opts"]
  unfolding quota_nonneg_def[of "snd _"] applyEntitlements_quotaT
  by (auto simp: Let_def quota_nonneg_def)

text \<open>
  A call that runs with no other call between its store calls is \<open>decrementQuota\<close> as
  defined above, and keeps the counters non-negative (\<open>decrementQuota_nonneg\<close>).
\<close>

lemma dec_step_alone:
  "(let (st1, s1) = dec_step date userId DecFind s;
        (st2, s2) = dec_step date userId st1 s1;
        (st3, s3) = dec_step date userId st2 s2
    in (st3, s3))
   = (DecDone (fst (decrementQuota date s userId)), snd (decrementQuota date s userId))"
  by (auto simp: dec_step_def decrementQuota_def getOrCreateQuota_def quota_update_def Let_def
           split: option.splits prod.splits)

text \<open>
  C8. The counters do not stay non-negative when two \<open>decrementQuota\<close> calls of one user
  overlap. From the row with \<open>paidRemaining = 1\<close> and \<open>freeRemaining = 0\<close>, the schedule
  in which both calls read the row before either updates it lets both pass the guard on
  their copies; both updates are applied, both calls return a row, and the stored row ends
  with \<open>paidRemaining = -1\<close>. With the two calls one after the other, the first takes the
  counter to 0 and the second throws.
\<close>

theorem overlapping_decrements_overdraw:
  "quotaT sys_last (''u'', monthUtc date0) = Some quota_last
   \<and> paidRemaining quota_last = 1
   \<and> sched_run two_calls sys_last [0, 1, 0, 1] =
       ([\<lparr> dc_date = date0, dc_userId = ''u'',
            dc_state = DecDone (Inr (quota_last\<lparr> paidRemaining := 0 \<rparr>)) \<rparr>,
         \<lparr> dc_date = date0, dc_userId = ''u'',
            dc_state = DecDone (Inr (quota_last\<lparr> paidRemaining := - 1 \<rparr>)) \<rparr>],
        sys_overdrawn)
   \<and> sched_run two_calls sys_last [0, 0, 1, 1] =
       ([\<lparr> dc_date = date0, dc_userId = ''u'',
            dc_state = DecDone (Inr (quota_last\<lparr> paidRemaining := 0 \<rparr>)) \<rparr>,
         \<lparr> dc_date = date0, dc_userId = ''u'',
            dc_state = DecDone (Inl (Error ''Quota exceeded for the current month'')) \<rparr>],
        sys_last\<lparr> quotaT := [(''u'', monthUtc date0) \<mapsto> quota_last\<lparr> paidRemaining := 0 \<rparr>] \<rparr>)"
  by (simp add: sched_run_def sched_step_def dec_step_def quota_update_def two_calls_def
        sys_last_def sys_overdrawn_def quota_last_def quota_overdrawn_def init_sys_def Let_def)

subsection \<open>Entitlement sync\<close>

lemma tier_cancel: "resolveTier cfg0 opts_cancel = FREE"
  by (simp add: resolveTier_def opts_cancel_def)

lemma tier_upgrade: "resolveTier cfg0 opts_upgrade = PLUS_200"
  by (simp add: resolveTier_def opts_upgrade_def planFromStripePriceId_def cfg0_def truthy_def)


text \<open>
  C6 (as the code has it). The entitlement sync rewrites the user's current-month quota
  row and no other: it sets \<open>watermarkExempt\<close> (true for a paid tier, false for FREE); it
  keeps \<open>freeRemaining\<close> on a paid tier and caps it at the monthly free default of 5 on
  FREE; and it does not keep \<open>paidRemaining\<close>, which is set to the tier's monthly quota
  on a paid tier and to 0 on FREE.
\<close>

theorem entitlement_sync_quota_row:
  assumes "getOrCreateQuota s (eo_userId opts) (monthUtc date) = (q, s1)"
    and "applyEntitlementsForSubscription cfg date s opts = (tier, s')"
  shows "tier = resolveTier cfg opts
       \<and> quotaT s' (eo_userId opts, monthUtc date) =
           Some (q\<lparr> freeRemaining := (if tier = FREE then min (freeRemaining q) 5 else freeRemaining q),
                    paidRemaining := (if tier = FREE then 0 else monthlyQuota (PLAN_DEFAULTS tier)),
                    watermarkExempt := (tier \<noteq> FREE) \<rparr>)
       \<and> (\<forall>k. k \<noteq> (eo_userId opts, monthUtc date) \<longrightarrow> quotaT s' k = quotaT s k)"
proof -
  have t: "tier = resolveTier cfg opts"
    using assms(2) by (auto simp: applyEntitlementsForSubscription_def Let_def split: prod.splits)
  have e: "pd_watermarkExempt (PLAN_DEFAULTS tier) = (tier \<noteq> FREE)"
    by (cases tier) (simp_all add: PLAN_DEFAULTS_def)
  have "quotaT s' = quotaT (snd (applyEntitlementsForSubscription cfg date s opts))"
    using assms(2) by simp
  then show ?thesis
    unfolding applyEntitlements_quotaT using assms(1) t e
    by (auto simp: Let_def)
qed

theorem entitlement_sync_quota_row_witness:
  "getOrCreateQuota sys_paid ''u'' (monthUtc date0) = (quota_paid, sys_paid)
   \<and> fst (applyEntitlementsForSubscription cfg0 date0 sys_paid opts_upgrade) = PLUS_200
   \<and> quotaT (snd (applyEntitlementsForSubscription cfg0 date0 sys_paid opts_upgrade))
        (''u'', monthUtc date0) =
       Some (quota_paid\<lparr> freeRemaining := 5, paidRemaining := 200, watermarkExempt := True \<rparr>)"
proof -
  have g: "getOrCreateQuota sys_paid (eo_userId opts_upgrade) (monthUtc date0) = (quota_paid, sys_paid)"
    by (simp add: getOrCreateQuota_def sys_paid_def opts_upgrade_def)
  have a: "applyEntitlementsForSubscription cfg0 date0 sys_paid opts_upgrade =
             (fst (applyEntitlementsForSubscription cfg0 date0 sys_paid opts_upgrade),
              snd (applyEntitlementsForSubscription cfg0 date0 sys_paid opts_upgrade))"
    by simp
  have u: "eo_userId opts_upgrade = ''u''" by (simp add: opts_upgrade_def)
  show ?thesis
    using entitlement_sync_quota_row[OF g a] g tier_upgrade
    by (simp add: u PLAN_DEFAULTS_def quota_paid_def)
qed



text \<open>
  The claim as stated fails: a cancellation in the middle of the month sets the two
  remaining paid generations to zero.
\<close>

theorem entitlement_sync_counterexample:
  "map_option paidRemaining (quotaT sys_paid (''u'', monthUtc date0)) = Some 2
   \<and> map_option paidRemaining
        (quotaT (snd (applyEntitlementsForSubscription cfg0 date0 sys_paid opts_cancel))
           (''u'', monthUtc date0)) = Some 0"
proof -
  have g: "getOrCreateQuota sys_paid ''u'' (monthUtc date0) = (quota_paid, sys_paid)"
    by (simp add: getOrCreateQuota_def sys_paid_def)
  have u: "eo_userId opts_cancel = ''u''" by (simp add: opts_cancel_def)
  show ?thesis
    unfolding applyEntitlements_quotaT
    by (simp add: tier_cancel u g Let_def) (simp add: sys_paid_def quota_paid_def)
qed


section \<open>Properties of the rate limiter\<close>

text \<open>
  C9. \<open>rateLimitWindow\<close> fails open. The request is denied exactly when the store is
  configured (URL and token present), none of the commands the limiter issues throws
  (\<open>INCR\<close>; \<open>EXPIRE\<close>, issued when the count is 1; \<open>TTL\<close>), and the incremented count of
  the window exceeds the maximum. In every other case, in particular with the store not
  configured or a command throwing, the request is allowed.
\<close>

theorem rateLimitWindow_fail_open:
  "\<not> allowed (fst (rateLimitWindow cfg c s key windowSeconds maxHits)) \<longleftrightarrow>
     truthy (UPSTASH_REDIS_REST_URL cfg) \<and> truthy (UPSTASH_REDIS_REST_TOKEN cfg)
     \<and> \<not> incr_throws c
     \<and> \<not> ((case redisKV s key of None \<Rightarrow> 1 | Some (v, _) \<Rightarrow> v + 1) = 1 \<and> expire_throws c)
     \<and> \<not> ttl_throws c
     \<and> maxHits < (case redisKV s key of None \<Rightarrow> 1 | Some (v, _) \<Rightarrow> v + 1)"
  by (auto simp: rateLimitWindow_def getRedis_def Let_def split: option.splits prod.splits)

theorem rateLimitWindow_fail_open_witness:
  "allowed (fst (rateLimitWindow (cfg0\<lparr> UPSTASH_REDIS_REST_URL := None \<rparr>) client_ok
      (init_sys\<lparr> redisKV := [''rl:gen:u'' \<mapsto> (10, Some 30)] \<rparr>) ''rl:gen:u'' 60 10))
   \<and> allowed (fst (rateLimitWindow cfg0 (client_ok\<lparr> incr_throws := True \<rparr>)
      (init_sys\<lparr> redisKV := [''rl:gen:u'' \<mapsto> (10, Some 30)] \<rparr>) ''rl:gen:u'' 60 10))
   \<and> \<not> allowed (fst (rateLimitWindow cfg0 client_ok
      (init_sys\<lparr> redisKV := [''rl:gen:u'' \<mapsto> (10, Some 30)] \<rparr>) ''rl:gen:u'' 60 10))"
  using rateLimitWindow_fail_open[of "cfg0\<lparr> UPSTASH_REDIS_REST_URL := None \<rparr>" client_ok
          "init_sys\<lparr> redisKV := [''rl:gen:u'' \<mapsto> (10, Some 30)] \<rparr>" "''rl:gen:u''" 60 10]
        rateLimitWindow_fail_open[of cfg0 "client_ok\<lparr> incr_throws := True \<rparr>"
          "init_sys\<lparr> redisKV := [''rl:gen:u'' \<mapsto> (10, Some 30)] \<rparr>" "''rl:gen:u''" 60 10]
        rateLimitWindow_fail_open[of cfg0 client_ok
          "init_sys\<lparr> redisKV := [''rl:gen:u'' \<mapsto> (10, Some 30)] \<rparr>" "''rl:gen:u''" 60 10]
  by (simp add: cfg0_def client_ok_def truthy_def init_sys_def)


section \<open>Properties of the generation endpoint\<close>

subsection \<open>What each stage writes\<close>

lemma generate_upload_writes:
  assumes "jobId < length (imageJobT s)"
  shows "case generate_upload env jobId gbytes ctype s of
           (Inl e, s') \<Rightarrow> writes s s' jobId []
         | (Inr r, s') \<Rightarrow> r = ok_job jobId \<and> (writes s s' jobId [COMPLETED] \<or> writes s s' jobId [FAILED])"
  using assms
  by (auto simp: generate_upload_def Let_def writes_def recordEvent_def imageJob_update_def
           split: option.splits put_result.splits)

lemma generate_model_writes:
  assumes "jobId < length (imageJobT s)"
  shows "case generate_model env jobId body inputBytes s of
           (Inl e, s') \<Rightarrow> writes s s' jobId []
         | (Inr r, s') \<Rightarrow> r = ok_job jobId \<and>
              (writes s s' jobId [COMPLETED] \<or> writes s s' jobId [FAILED] \<or> writes s s' jobId [BLOCKED])"
proof (cases "ge_gemini env inputBytes (b_style body) (orPng (b_outputFormat body)) (b_promptVariant body)")
  case (Generated gbytes ctype)
  let ?s4 = "recordEvent ((recordEvent (recordEvent s jobId ''download_input_success''
                 (Some (JObj [(''bytes'', JNum (of_nat (length inputBytes)))]))) jobId ''call_gemini_start''
                 (Some (JObj [(''model'', JStr (geminiModelName (ge_cfg env))),
                              (''outputFormat'', JStr (format_name (orPng (b_outputFormat body))))])))
                 \<lparr> extCalls := extCalls s @ [GeminiCall (b_style body)] \<rparr>) jobId ''call_gemini_success''
                         (Some (JObj [(''contentType'', JStr ctype),
                                      (''bytes'', JNum (of_nat (length gbytes)))]))"
  have len: "jobId < length (imageJobT ?s4)" using assms by (simp add: recordEvent_def)
  have w: "writes s ?s4 jobId []" by (simp add: writes_def recordEvent_def)
  have eq: "generate_model env jobId body inputBytes s = generate_upload env jobId gbytes ctype ?s4"
    using Generated by (simp add: generate_model_def Let_def recordEvent_def)
  show ?thesis
    using generate_upload_writes[OF len, of env gbytes ctype] w unfolding eq
    by (auto simp: writes_def split: prod.splits sum.splits)
next
  case (GeminiThrows err)
  then show ?thesis using assms
    by (cases err) (auto simp: generate_model_def Let_def writes_def recordEvent_def imageJob_update_def)
qed


lemma generate_try_writes:
  assumes "jobId < length (imageJobT s)"
  shows "case generate_try env jobId body s of
           (Inl e, s') \<Rightarrow> writes s s' jobId []
         | (Inr r, s') \<Rightarrow> r = ok_job jobId \<and>
              (writes s s' jobId [COMPLETED] \<or> writes s s' jobId [FAILED] \<or> writes s s' jobId [BLOCKED])"
proof -
  let ?s2 = "(recordEvent s jobId ''download_input_start''
                 (Some (JObj [(''url'', JStr (b_inputUrl body))])))
               \<lparr> extCalls := extCalls s @ [FetchCall (b_inputUrl body)] \<rparr>"
  have len: "jobId < length (imageJobT ?s2)" using assms by (simp add: recordEvent_def)
  have w: "writes s ?s2 jobId []" by (simp add: writes_def recordEvent_def)
  show ?thesis
  proof (cases "ge_fetch env (b_inputUrl body)")
    case (FetchThrows m)
    then show ?thesis using w by (simp add: generate_try_def Let_def recordEvent_def)
  next
    case (FetchResponse ok code ct payload)
    show ?thesis
    proof (cases "ok \<and> \<not> isl payload")
      case False
      then show ?thesis using w FetchResponse
        by (cases payload) (auto simp: generate_try_def Let_def recordEvent_def)
    next
      case True
      then obtain inputBytes where p: "payload = Inr inputBytes" and ok: ok
        by (cases payload) auto
      have eq: "generate_try env jobId body s = generate_model env jobId body inputBytes ?s2"
        using FetchResponse p ok by (simp add: generate_try_def Let_def recordEvent_def)
      show ?thesis
        using generate_model_writes[OF len, of env body inputBytes] w unfolding eq
        by (auto simp: writes_def split: prod.splits sum.splits)
    qed
  qed
qed

lemma writes_trans:
  "writes s s1 j a \<Longrightarrow> writes s1 s2 j b \<Longrightarrow> writes s s2 j (a @ b)"
  by (simp add: writes_def)

lemma writes_update:
  "j < length (imageJobT s) \<Longrightarrow> writes s (imageJob_update s j st f) j [st]"
  by (simp add: writes_def imageJob_update_def)

lemma writes_recordEvent: "writes s (recordEvent s j' step d) j []"
  by (simp add: writes_def recordEvent_def)

lemma writes_length: "writes s s' j sts \<Longrightarrow> length (imageJobT s') = length (imageJobT s)"
  by (simp add: writes_def)

lemma generate_process_writes:
  assumes "jobId < length (imageJobT s)"
  shows "fst (generate_process env jobId body s) = ok_job jobId
       \<and> (\<exists>t \<in> {COMPLETED, BLOCKED, FAILED}.
             writes s (snd (generate_process env jobId body s)) jobId [PROCESSING, t])"
proof -
  let ?s2 = "recordEvent (imageJob_update s jobId PROCESSING (\<lambda>j. j)) jobId ''processing'' None"
  have w: "writes s ?s2 jobId [PROCESSING]"
    using writes_trans[OF writes_update[OF assms] writes_recordEvent] by simp
  have len: "jobId < length (imageJobT ?s2)"
    using assms writes_length[OF w] by simp
  obtain res s3 where t: "generate_try env jobId body ?s2 = (res, s3)"
    by (cases "generate_try env jobId body ?s2")
  show ?thesis
  proof (cases res)
    case (Inl err)
    let ?s5 = "recordEvent (imageJob_update s3 jobId FAILED
                         (\<lambda>j. j\<lparr> blockedReason := Some ''INPUT_OR_UNKNOWN_ERROR'' \<rparr>)) jobId ''failed''
                         (Some (JObj [(''reason'', JStr ''INPUT_OR_UNKNOWN_ERROR''),
                                      (''err'', JStr (error_message err))]))"
    have w3: "writes ?s2 s3 jobId []"
      using generate_try_writes[OF len, of env body] t Inl by simp
    have len3: "jobId < length (imageJobT s3)"
      using len writes_length[OF w3] by simp
    have "writes s3 ?s5 jobId [FAILED]"
      using writes_trans[OF writes_update[OF len3] writes_recordEvent] by simp
    from writes_trans[OF writes_trans[OF w w3] this]
    have "writes s ?s5 jobId [PROCESSING, FAILED]" by simp
    moreover have "generate_process env jobId body s = (ok_job jobId, ?s5)"
      using t Inl by (simp add: generate_process_def Let_def)
    ultimately show ?thesis by simp
  next
    case (Inr r)
    have d: "r = ok_job jobId \<and> (writes ?s2 s3 jobId [COMPLETED] \<or> writes ?s2 s3 jobId [FAILED]
                \<or> writes ?s2 s3 jobId [BLOCKED])"
      using generate_try_writes[OF len, of env body] t Inr by simp
    have e: "generate_process env jobId body s = (r, s3)"
      using t Inr by (simp add: generate_process_def Let_def)
    from d consider "writes ?s2 s3 jobId [COMPLETED]" | "writes ?s2 s3 jobId [FAILED]"
      | "writes ?s2 s3 jobId [BLOCKED]" by blast
    then have "\<exists>t \<in> {COMPLETED, BLOCKED, FAILED}. writes s s3 jobId [PROCESSING, t]"
    proof cases
      case 1 from writes_trans[OF w 1] show ?thesis by simp
    next
      case 2 from writes_trans[OF w 2] show ?thesis by simp
    next
      case 3 from writes_trans[OF w 3] show ?thesis by simp
    qed
    with d e show ?thesis by simp
  qed
qed


lemma rateLimitWindow_writes: "writes s (snd (rateLimitWindow cfg c s key w m)) j []"
  by (simp add: rateLimitWindow_def Let_def writes_def split: option.splits prod.splits)

lemma decrementQuota_writes: "writes s (snd (decrementQuota date s userId)) j []"
  by (auto simp: decrementQuota_def getOrCreateQuota_def quota_update_def Let_def writes_def
       split: option.splits prod.splits)

lemma created_writes: "created s s1 a \<Longrightarrow> writes s1 s2 (length (imageJobT s)) b \<Longrightarrow> created s s2 (a @ b)"
  by (simp add: created_def writes_def)

lemma generate_job_effect:
  "fst (generate_job env userId body s) = ok_job (length (imageJobT s))
   \<and> (\<exists>h \<in> lifecycles. created s (snd (generate_job env userId body s)) h)"
proof -
  let ?jid = "length (imageJobT s)"
  let ?row = "\<lparr> job_userId = userId, inputBlobUrl = b_inputUrl body, style = b_style body,
              promptVariant = b_promptVariant body, status = QUEUED, blockedReason = None,
              outputBlobUrl = None, completedAt = None \<rparr>"
  let ?s2 = "recordEvent (snd (imageJob_create s ?row)) ?jid ''queued''
                 (Some (JObj [(''style'', JStr (style_name (b_style body)))]))"
  have c2: "created s ?s2 [QUEUED]"
    by (simp add: created_def imageJob_create_def recordEvent_def Let_def)
  obtain rl s3 where r: "rateLimitWindow (ge_cfg env) (ge_redis env) ?s2 (rateLimitKey ''gen'' userId) 60 10 = (rl, s3)"
    by (cases "rateLimitWindow (ge_cfg env) (ge_redis env) ?s2 (rateLimitKey ''gen'' userId) 60 10")
  have w3: "writes ?s2 s3 ?jid []"
    using rateLimitWindow_writes[of ?s2 "ge_cfg env" "ge_redis env" "rateLimitKey ''gen'' userId" 60 10 ?jid] r
    by simp
  have c3: "created s s3 [QUEUED]"
    using created_writes[OF c2 w3] by simp
  have len3: "?jid < length (imageJobT s3)"
    using c3 by (simp add: created_def)
  show ?thesis
  proof (cases "allowed rl")
    case False
    let ?s5 = "recordEvent (imageJob_update s3 ?jid FAILED
                       (\<lambda>j. j\<lparr> blockedReason := Some ''RATE_LIMITED'' \<rparr>)) ?jid ''failed''
                       (Some (JObj [(''reason'', JStr ''RATE_LIMITED''),
                                    (''remaining'', JNum (of_int (remaining rl)))]))"
    have "writes s3 ?s5 ?jid [FAILED]"
      using writes_trans[OF writes_update[OF len3] writes_recordEvent] by simp
    from created_writes[OF c3 this] have "created s ?s5 [QUEUED, FAILED]" by simp
    moreover have "generate_job env userId body s = (ok_job ?jid, ?s5)"
      using r False by (simp add: generate_job_def Let_def imageJob_create_def)
    ultimately show ?thesis by (auto simp: lifecycles_def)
  next
    case True
    obtain dq s4 where d: "decrementQuota (ge_date env) s3 userId = (dq, s4)"
      by (cases "decrementQuota (ge_date env) s3 userId")
    have w4: "writes s3 s4 ?jid []"
      using decrementQuota_writes[of s3 "ge_date env" userId ?jid] d by simp
    have c4: "created s s4 [QUEUED]"
      using created_writes[OF c3 w4] by simp
    have len4: "?jid < length (imageJobT s4)"
      using c4 by (simp add: created_def)
    show ?thesis
    proof (cases dq)
      case (Inl e)
      let ?s6 = "recordEvent (imageJob_update s4 ?jid FAILED
                            (\<lambda>j. j\<lparr> blockedReason := Some ''QUOTA_EXCEEDED'' \<rparr>)) ?jid ''failed''
                            (Some (JObj [(''reason'', JStr ''QUOTA_EXCEEDED'')]))"
      have "writes s4 ?s6 ?jid [FAILED]"
        using writes_trans[OF writes_update[OF len4] writes_recordEvent] by simp
      from created_writes[OF c4 this] have "created s ?s6 [QUEUED, FAILED]" by simp
      moreover have "generate_job env userId body s = (ok_job ?jid, ?s6)"
        using r True d Inl by (simp add: generate_job_def Let_def imageJob_create_def)
      ultimately show ?thesis by (auto simp: lifecycles_def)
    next
      case (Inr q)
      have e: "generate_job env userId body s = generate_process env ?jid body s4"
        using r True d Inr by (simp add: generate_job_def Let_def imageJob_create_def)
      from generate_process_writes[OF len4, of env body]
      obtain t where t: "t \<in> {COMPLETED, BLOCKED, FAILED}"
        and w: "writes s4 (snd (generate_process env ?jid body s4)) ?jid [PROCESSING, t]"
        and f: "fst (generate_process env ?jid body s4) = ok_job ?jid"
        by blast
      from created_writes[OF c4 w]
      have "created s (snd (generate_process env ?jid body s4)) [QUEUED, PROCESSING, t]"
        by simp
      moreover have "[QUEUED, PROCESSING, t] \<in> lifecycles"
        using t by (auto simp: lifecycles_def)
      ultimately show ?thesis using f e by auto
    qed
  qed
qed


lemma POST_generate_authenticated:
  assumes "session_userId req = Some userId" and "userId \<noteq> []"
  shows "POST_generate isUrl env req s =
           (case parse_request_body isUrl req of
              None \<Rightarrow> (json_response (ErrorBody ''Invalid request'') 400, s)
            | Some body \<Rightarrow> generate_job env userId body s)"
  using assms by (simp add: POST_generate_def truthy_def parse_request_body_def)

lemma style_rejected:
  "obj_get kvs ''style'' \<notin> {Some (JStr ''BYZANTINE''), Some (JStr ''GOTHIC''), Some (JStr ''CYBERPUNK'')}
   \<Longrightarrow> BodySchema_parse isUrl (JObj kvs) = None"
  by (auto simp: BodySchema_parse_def parse_style_def split: option.splits json.splits)


lemma parsed_req_ok: "parse_request_body (\<lambda>u. True) req_ok = Some body_ok"
  by (simp add: parse_request_body_def req_ok_def body_ok_def BodySchema_parse_def obj_get_def
        parse_inputUrl_def parse_style_def parse_promptVariant_def parse_outputFormat_def
        startsWith_def)

lemma parsed_req_baroque: "parse_request_body (\<lambda>u. True) req_baroque = None"
  by (simp add: parse_request_body_def req_baroque_def BodySchema_parse_def obj_get_def
        parse_inputUrl_def parse_style_def parse_promptVariant_def parse_outputFormat_def
        startsWith_def)

lemma POST_generate_req_ok:
  "POST_generate (\<lambda>u. True) env_gen req_ok s = generate_job env_gen ''u'' body_ok s"
  using POST_generate_authenticated[of req_ok "''u''" "\<lambda>u. True" env_gen s] parsed_req_ok
  by (simp add: req_ok_def)

subsection \<open>Responses\<close>

text \<open>
  C2. For an authenticated request, \<open>POST /api/generate\<close> answers 400 exactly when the body
  fails validation, and for every body that passes validation it answers 200 with the id
  of the job row it has created, whatever the rate limiter, the quota, the model, the
  storage and the input download do. A body whose style is not one of BYZANTINE, GOTHIC,
  CYBERPUNK fails validation.
\<close>

theorem POST_generate_responses:
  assumes "session_userId req = Some userId" and "userId \<noteq> []"
  shows "(r_status (fst (POST_generate isUrl env req s)) = 400 \<longleftrightarrow> parse_request_body isUrl req = None)
       \<and> (parse_request_body isUrl req \<noteq> None \<longrightarrow>
            fst (POST_generate isUrl env req s) =
              \<lparr> r_status = 200, r_body = JobIdBody (length (imageJobT s)), r_headers = [] \<rparr>
            \<and> length (imageJobT (snd (POST_generate isUrl env req s))) = Suc (length (imageJobT s)))
       \<and> (\<forall>kvs. obj_get kvs ''style'' \<notin> {Some (JStr ''BYZANTINE''), Some (JStr ''GOTHIC''),
                                          Some (JStr ''CYBERPUNK'')}
              \<longrightarrow> BodySchema_parse isUrl (JObj kvs) = None)"
proof (cases "parse_request_body isUrl req")
  case None
  then show ?thesis
    using POST_generate_authenticated[OF assms, of isUrl env s] style_rejected
    by (simp add: json_response_def)
next
  case (Some body)
  from generate_job_effect[of env userId body s]
  obtain h where "fst (generate_job env userId body s) = ok_job (length (imageJobT s))"
    and "created s (snd (generate_job env userId body s)) h" by blast
  then show ?thesis
    using Some POST_generate_authenticated[OF assms, of isUrl env s] style_rejected
    by (simp add: json_response_def ok_job_def created_def)
qed



theorem POST_generate_responses_witness:
  "r_status (fst (POST_generate (\<lambda>u. True) env_gen req_baroque init_sys)) = 400
   \<and> fst (POST_generate (\<lambda>u. True) env_gen req_ok init_sys) =
        \<lparr> r_status = 200, r_body = JobIdBody 0, r_headers = [] \<rparr>
   \<and> fst (POST_generate (\<lambda>u. True) env_gen req_ok sys_limited) =
        \<lparr> r_status = 200, r_body = JobIdBody 0, r_headers = [] \<rparr>"
  using POST_generate_responses[of req_baroque "''u''" "\<lambda>u. True" env_gen init_sys]
        POST_generate_responses[of req_ok "''u''" "\<lambda>u. True" env_gen init_sys]
        POST_generate_responses[of req_ok "''u''" "\<lambda>u. True" env_gen sys_limited]
        parsed_req_ok parsed_req_baroque
  by (simp add: req_ok_def req_baroque_def init_sys_def sys_limited_def sys_exhausted_def)

subsection \<open>Exhausted quota\<close>

lemma rateLimitWindow_snd:
  "snd (rateLimitWindow cfg c s key w m) = s\<lparr> redisKV := redisKV (snd (rateLimitWindow cfg c s key w m)) \<rparr>"
  by (simp add: rateLimitWindow_def Let_def split: option.splits prod.splits)

lemma rateLimitWindow_fst_cong:
  "redisKV s' = redisKV s \<Longrightarrow>
     fst (rateLimitWindow cfg c s' key w m) = fst (rateLimitWindow cfg c s key w m)"
  by (simp add: rateLimitWindow_def Let_def split: option.splits prod.splits)

lemma decrementQuota_exhausted:
  assumes "quotaT s (userId, monthUtc date) = Some q"
    and "freeRemaining q = 0" and "paidRemaining q = 0"
  shows "decrementQuota date s userId = (Inl (Error ''Quota exceeded for the current month''), s)"
  using assms by (simp add: decrementQuota_def getOrCreateQuota_def Let_def)


text \<open>
  C4 (as the code has it). For a user whose current-month quota row has
  \<open>freeRemaining = 0\<close> and \<open>paidRemaining = 0\<close>, an authenticated, schema-valid request
  creates a job that goes from QUEUED straight to FAILED and is never COMPLETED; no input
  download, model call or upload is made and the quota row is not changed. The reason is
  \<open>QUOTA_EXCEEDED\<close> when the rate limiter allows the request, and \<open>RATE_LIMITED\<close> when it
  denies it: the rate limit is checked before the quota.
\<close>

theorem exhausted_quota_fails_job:
  assumes "session_userId req = Some userId" and "userId \<noteq> []"
    and "parse_request_body isUrl req = Some body"
    and "quotaT s (userId, monthUtc (ge_date env)) = Some q"
    and "freeRemaining q = 0" and "paidRemaining q = 0"
  shows "let s' = snd (POST_generate isUrl env req s);
             jobId = length (imageJobT s);
             rl = fst (rateLimitWindow (ge_cfg env) (ge_redis env) s (rateLimitKey ''gen'' userId) 60 10)
         in statusWrites s' = statusWrites s @ [(jobId, QUEUED), (jobId, FAILED)]
            \<and> imageJob_findUnique s' jobId =
                Some \<lparr> job_userId = userId, inputBlobUrl = b_inputUrl body, style = b_style body,
                       promptVariant = b_promptVariant body, status = FAILED,
                       blockedReason = Some (if allowed rl then ''QUOTA_EXCEEDED'' else ''RATE_LIMITED''),
                       outputBlobUrl = None, completedAt = None \<rparr>
            \<and> extCalls s' = extCalls s
            \<and> quotaT s' = quotaT s"
proof -
  let ?jid = "length (imageJobT s)"
  let ?row = "\<lparr> job_userId = userId, inputBlobUrl = b_inputUrl body, style = b_style body,
              promptVariant = b_promptVariant body, status = QUEUED, blockedReason = None,
              outputBlobUrl = None, completedAt = None \<rparr>"
  let ?s2 = "recordEvent (snd (imageJob_create s ?row)) ?jid ''queued''
                 (Some (JObj [(''style'', JStr (style_name (b_style body)))]))"
  let ?rlw = "rateLimitWindow (ge_cfg env) (ge_redis env) ?s2 (rateLimitKey ''gen'' userId) 60 10"
  have kv2: "redisKV ?s2 = redisKV s"
    by (simp add: recordEvent_def imageJob_create_def Let_def)
  have rl: "fst ?rlw = fst (rateLimitWindow (ge_cfg env) (ge_redis env) s (rateLimitKey ''gen'' userId) 60 10)"
    by (rule rateLimitWindow_fst_cong[OF kv2])
  obtain R where s3: "snd ?rlw = ?s2\<lparr> redisKV := R \<rparr>"
    using rateLimitWindow_snd[of "ge_cfg env" "ge_redis env" ?s2 "rateLimitKey ''gen'' userId" 60 10]
    by blast
  have q3: "quotaT (?s2\<lparr> redisKV := R \<rparr>) (userId, monthUtc (ge_date env)) = Some q"
    using assms(4) by (simp add: recordEvent_def imageJob_create_def Let_def)
  have dq: "decrementQuota (ge_date env) (?s2\<lparr> redisKV := R \<rparr>) userId
              = (Inl (Error ''Quota exceeded for the current month''), ?s2\<lparr> redisKV := R \<rparr>)"
    by (rule decrementQuota_exhausted[OF q3 assms(5) assms(6)])
  have p: "POST_generate isUrl env req s = generate_job env userId body s"
    using POST_generate_authenticated[OF assms(1,2), of isUrl env s] assms(3) by simp
  obtain rlr where rw: "?rlw = (rlr, ?s2\<lparr> redisKV := R \<rparr>)"
    using s3 by (cases ?rlw) simp
  have rlr: "fst (rateLimitWindow (ge_cfg env) (ge_redis env) s (rateLimitKey ''gen'' userId) 60 10) = rlr"
    using rl rw by simp
  show ?thesis
  proof (cases "allowed rlr")
    case True
    have "generate_job env userId body s =
            (ok_job ?jid,
             recordEvent (imageJob_update (?s2\<lparr> redisKV := R \<rparr>) ?jid FAILED
                            (\<lambda>j. j\<lparr> blockedReason := Some ''QUOTA_EXCEEDED'' \<rparr>)) ?jid ''failed''
                            (Some (JObj [(''reason'', JStr ''QUOTA_EXCEEDED'')])))"
      using rw dq True by (simp add: generate_job_def Let_def imageJob_create_def)
    then show ?thesis
      unfolding p rlr Let_def using True
      by (simp add: recordEvent_def imageJob_update_def imageJob_create_def imageJob_findUnique_def
            Let_def nth_append)
  next
    case False
    have "generate_job env userId body s =
            (ok_job ?jid,
             recordEvent (imageJob_update (?s2\<lparr> redisKV := R \<rparr>) ?jid FAILED
                       (\<lambda>j. j\<lparr> blockedReason := Some ''RATE_LIMITED'' \<rparr>)) ?jid ''failed''
                       (Some (JObj [(''reason'', JStr ''RATE_LIMITED''),
                                    (''remaining'', JNum (of_int (remaining rlr)))])))"
      using rw False by (simp add: generate_job_def Let_def imageJob_create_def)
    then show ?thesis
      unfolding p rlr Let_def using False
      by (simp add: recordEvent_def imageJob_update_def imageJob_create_def imageJob_findUnique_def
            Let_def nth_append)
  qed
qed



theorem exhausted_quota_fails_job_witness:
  "session_userId req_ok = Some ''u''
   \<and> parse_request_body (\<lambda>u. True) req_ok = Some body_ok
   \<and> quotaT sys_exhausted (''u'', monthUtc (ge_date env_gen)) = Some quota_exhausted
   \<and> freeRemaining quota_exhausted = 0 \<and> paidRemaining quota_exhausted = 0
   \<and> statusWrites (snd (POST_generate (\<lambda>u. True) env_gen req_ok sys_exhausted))
        = [(0, QUEUED), (0, FAILED)]
   \<and> map_option blockedReason
        (imageJob_findUnique (snd (POST_generate (\<lambda>u. True) env_gen req_ok sys_exhausted)) 0)
      = Some (Some ''QUOTA_EXCEEDED'')
   \<and> extCalls (snd (POST_generate (\<lambda>u. True) env_gen req_ok sys_exhausted)) = []"
proof -
  have a: "session_userId req_ok = Some ''u''" and b: "''u'' \<noteq> []"
    by (simp_all add: req_ok_def)
  have q: "quotaT sys_exhausted (''u'', monthUtc (ge_date env_gen)) = Some quota_exhausted"
    by (simp add: sys_exhausted_def env_gen_def)
  have f: "freeRemaining quota_exhausted = 0" and p: "paidRemaining quota_exhausted = 0"
    by (simp_all add: quota_exhausted_def)
  have rl: "allowed (fst (rateLimitWindow (ge_cfg env_gen) (ge_redis env_gen) sys_exhausted
                            (rateLimitKey ''gen'' ''u'') 60 10))"
    by (simp add: rateLimitWindow_def getRedis_def truthy_def env_gen_def cfg0_def client_ok_def
          sys_exhausted_def init_sys_def Let_def)
  show ?thesis
    using exhausted_quota_fails_job[OF a b parsed_req_ok q f p] a parsed_req_ok q f p rl
    by (simp add: Let_def sys_exhausted_def init_sys_def)
qed


text \<open>
  The claim as stated fails: with both counters at zero and the user at the rate limit,
  the job ends FAILED with reason \<open>RATE_LIMITED\<close>, not \<open>QUOTA_EXCEEDED\<close>.
\<close>

theorem exhausted_quota_counterexample:
  "quotaT sys_limited (''u'', monthUtc (ge_date env_gen)) = Some quota_exhausted
   \<and> freeRemaining quota_exhausted = 0 \<and> paidRemaining quota_exhausted = 0
   \<and> map_option blockedReason
        (imageJob_findUnique (snd (POST_generate (\<lambda>u. True) env_gen req_ok sys_limited)) 0)
      = Some (Some ''RATE_LIMITED'')"
proof -
  have "map_option blockedReason
        (imageJob_findUnique (snd (POST_generate (\<lambda>u. True) env_gen req_ok sys_limited)) 0)
      = Some (Some ''RATE_LIMITED'')"
    unfolding POST_generate_req_ok
    by (simp add: generate_job_def imageJob_create_def recordEvent_def rateLimitWindow_def
          getRedis_def truthy_def env_gen_def cfg0_def client_ok_def sys_limited_def sys_exhausted_def
          init_sys_def Let_def imageJob_update_def imageJob_findUnique_def)
  then show ?thesis
    by (simp add: sys_limited_def sys_exhausted_def quota_exhausted_def env_gen_def)
qed

subsection \<open>Status histories\<close>

lemma applyEntitlements_same_jobs:
  "same_jobs s (snd (applyEntitlementsForSubscription cfg date s opts))"
  by (simp add: applyEntitlementsForSubscription_def getOrCreateQuota_def quota_update_def
        Let_def same_jobs_def split: option.splits prod.splits)

lemma syncBySubscriptionId_same_jobs:
  "same_jobs s (snd (syncBySubscriptionId env subId ov s))"
  using applyEntitlements_same_jobs
  by (auto simp: syncBySubscriptionId_def same_jobs_def split: sum.splits option.splits)

lemma syncFromSubscription_same_jobs:
  "same_jobs s (snd (syncFromSubscription env sub s))"
  using applyEntitlements_same_jobs
  by (auto simp: syncFromSubscription_def Let_def same_jobs_def split: option.splits)

lemma webhook_dispatch_same_jobs:
  "same_jobs s (snd (webhook_dispatch env event s))"
  using syncBySubscriptionId_same_jobs syncFromSubscription_same_jobs
  by (auto simp: webhook_dispatch_def same_jobs_def split: stripe_object.splits)

lemma same_jobs_trans: "same_jobs s s1 \<Longrightarrow> same_jobs s1 s2 \<Longrightarrow> same_jobs s s2"
  by (simp add: same_jobs_def)

lemma tryAcquire_same_jobs: "same_jobs s (snd (tryAcquireIdempotency cfg c s key ttl))"
  by (simp add: tryAcquireIdempotency_def same_jobs_def split: option.splits)

lemma recordWebhookEvent_same_jobs: "same_jobs s (snd (recordWebhookEvent s event))"
  by (simp add: recordWebhookEvent_def same_jobs_def split: option.splits)

lemma markProcessed_same_jobs: "same_jobs s (markProcessed date s eid st)"
  by (simp add: markProcessed_def same_jobs_def split: option.splits)

lemma webhook_process_same_jobs:
  "same_jobs s (snd (webhook_process env event s))"
proof -
  obtain a s1 where t: "tryAcquireIdempotency (we_cfg env) (we_redis env) s
                             (stripeEventLockKey (ev_id event)) (24 * 60 * 60) = (a, s1)"
    by (cases "tryAcquireIdempotency (we_cfg env) (we_redis env) s
                             (stripeEventLockKey (ev_id event)) (24 * 60 * 60)")
  obtain n s2 where r: "recordWebhookEvent s1 event = (n, s2)"
    by (cases "recordWebhookEvent s1 event")
  obtain d s3 where w: "webhook_dispatch env event s2 = (d, s3)"
    by (cases "webhook_dispatch env event s2")
  have j1: "same_jobs s s1" using tryAcquire_same_jobs[of s "we_cfg env" "we_redis env"] t
    by (metis snd_conv)
  have j2: "same_jobs s1 s2" using recordWebhookEvent_same_jobs[of s1 event] r by simp
  have j3: "same_jobs s2 s3" using webhook_dispatch_same_jobs[of s2 env event] w by simp
  have j4: "\<And>st. same_jobs s3 (markProcessed (we_date env) s3 (ev_id event) st)"
    by (rule markProcessed_same_jobs)
  show ?thesis
    using t r w j1 same_jobs_trans[OF j1 j2] same_jobs_trans[OF same_jobs_trans[OF j1 j2] j3]
      same_jobs_trans[OF same_jobs_trans[OF same_jobs_trans[OF j1 j2] j3] j4]
    by (cases d) (simp_all add: webhook_process_def Let_def)
qed

lemma POST_webhook_same_jobs: "same_jobs s (snd (POST_webhook env req s))"
  using webhook_process_same_jobs
  by (auto simp: POST_webhook_def same_jobs_def split: sum.splits)

lemma jobs_inv_same: "same_jobs s s' \<Longrightarrow> jobs_inv s \<Longrightarrow> jobs_inv s'"
  by (simp add: same_jobs_def jobs_inv_def job_history_def)

lemma jobs_inv_created:
  assumes "jobs_inv s" and "created s s' h" and "h \<in> lifecycles"
  shows "jobs_inv s'"
proof -
  let ?jid = "length (imageJobT s)"
  have sw: "statusWrites s' = statusWrites s @ map (Pair ?jid) h"
    and len: "length (imageJobT s') = Suc ?jid"
    using assms(2) by (simp_all add: created_def)
  have old: "\<forall>w \<in> set (statusWrites s). fst w < ?jid"
    using assms(1) by (simp add: jobs_inv_def)
  then have none: "filter (\<lambda>w. fst w = ?jid) (statusWrites s) = []"
    by (auto simp: filter_empty_conv)
  have new: "job_history s' ?jid = h"
    by (simp add: job_history_def sw none filter_map comp_def map_idI)
  have keep: "job_history s' j = job_history s j" if "j < ?jid" for j
    using that by (simp add: job_history_def sw filter_map comp_def)
  have "\<forall>w \<in> set (statusWrites s'). fst w < length (imageJobT s')"
    using old by (auto simp: sw len)
  moreover have "\<forall>j < length (imageJobT s'). job_history s' j \<in> lifecycles"
  proof (intro allI impI)
    fix j assume "j < length (imageJobT s')"
    then consider "j < ?jid" | "j = ?jid" using len by linarith
    then show "job_history s' j \<in> lifecycles"
    proof cases
      case 1
      then show ?thesis using keep assms(1) by (simp add: jobs_inv_def)
    next
      case 2
      then show ?thesis using new assms(3) by simp
    qed
  qed
  ultimately show ?thesis by (simp add: jobs_inv_def)
qed

lemma POST_generate_jobs_inv:
  assumes "jobs_inv s"
  shows "jobs_inv (snd (POST_generate isUrl env req s))"
proof (cases "\<exists>userId body. session_userId req = Some userId \<and> userId \<noteq> [] \<and> parse_request_body isUrl req = Some body")
  case True
  then obtain userId body where u: "session_userId req = Some userId" "userId \<noteq> []"
    and b: "parse_request_body isUrl req = Some body" by blast
  have "POST_generate isUrl env req s = generate_job env userId body s"
    using POST_generate_authenticated[OF u, of isUrl env s] b by simp
  then show ?thesis
    using generate_job_effect[of env userId body s] jobs_inv_created[OF assms] by auto
next
  case False
  then have "snd (POST_generate isUrl env req s) = s"
    by (auto simp: POST_generate_def truthy_def parse_request_body_def split: option.splits)
  then show ?thesis using assms by simp
qed

lemma GET_usage_same_jobs: "same_jobs s (snd (GET_usage date session s))"
  by (simp add: GET_usage_def getOrCreateQuota_def Let_def same_jobs_def
        split: option.splits prod.splits)

lemma handle_jobs_inv: "jobs_inv s \<Longrightarrow> jobs_inv (handle isUrl s r)"
  by (cases r)
     (simp_all add: handle_def POST_generate_jobs_inv jobs_inv_same[OF POST_webhook_same_jobs]
        jobs_inv_same[OF GET_usage_same_jobs])

lemma run_jobs_inv: "jobs_inv s \<Longrightarrow> jobs_inv (run isUrl rs s)"
  unfolding run_def by (induction rs arbitrary: s) (simp_all add: handle_jobs_inv)


lemma created_history:
  assumes "jobs_inv s" and "created s s' h"
  shows "job_history s' (length (imageJobT s)) = h"
proof -
  have "\<forall>w \<in> set (statusWrites s). fst w < length (imageJobT s)"
    using assms(1) by (simp add: jobs_inv_def)
  then have "filter (\<lambda>w. fst w = length (imageJobT s)) (statusWrites s) = []"
    by (auto simp: filter_empty_conv)
  then show ?thesis
    using assms(2) by (simp add: job_history_def created_def filter_map comp_def map_idI)
qed

lemma decrementQuota_fst_cong:
  "quotaT s' = quotaT s \<Longrightarrow>
     fst (decrementQuota date s' userId) = fst (decrementQuota date s userId)"
  by (simp add: decrementQuota_def getOrCreateQuota_def quota_update_def Let_def
        split: option.splits prod.splits)

lemma rateLimitWindow_quotaT:
  "quotaT (snd (rateLimitWindow cfg c s key w m)) = quotaT s"
  by (simp add: rateLimitWindow_def Let_def split: option.splits prod.splits)

text \<open>The two guards decide between the direct failure and processing.\<close>

lemma generate_job_guards:
  "if allowed (fst (rateLimitWindow (ge_cfg env) (ge_redis env) s (rateLimitKey ''gen'' userId) 60 10))
      \<and> \<not> isl (fst (decrementQuota (ge_date env) s userId))
   then \<exists>t \<in> {COMPLETED, BLOCKED, FAILED}.
          created s (snd (generate_job env userId body s)) [QUEUED, PROCESSING, t]
   else created s (snd (generate_job env userId body s)) [QUEUED, FAILED]"
proof -
  let ?jid = "length (imageJobT s)"
  let ?row = "\<lparr> job_userId = userId, inputBlobUrl = b_inputUrl body, style = b_style body,
              promptVariant = b_promptVariant body, status = QUEUED, blockedReason = None,
              outputBlobUrl = None, completedAt = None \<rparr>"
  let ?s2 = "recordEvent (snd (imageJob_create s ?row)) ?jid ''queued''
                 (Some (JObj [(''style'', JStr (style_name (b_style body)))]))"
  let ?rlw = "rateLimitWindow (ge_cfg env) (ge_redis env) ?s2 (rateLimitKey ''gen'' userId) 60 10"
  have c2: "created s ?s2 [QUEUED]"
    by (simp add: created_def imageJob_create_def recordEvent_def Let_def)
  have kv2: "redisKV ?s2 = redisKV s"
    by (simp add: recordEvent_def imageJob_create_def Let_def)
  obtain rl s3 where r: "?rlw = (rl, s3)"
    by (cases ?rlw)
  have rl: "fst (rateLimitWindow (ge_cfg env) (ge_redis env) s (rateLimitKey ''gen'' userId) 60 10) = rl"
    using rateLimitWindow_fst_cong[OF kv2, of "ge_cfg env" "ge_redis env" "rateLimitKey ''gen'' userId" 60 10] r
    by simp
  have w3: "writes ?s2 s3 ?jid []"
    using rateLimitWindow_writes[of ?s2 "ge_cfg env" "ge_redis env" "rateLimitKey ''gen'' userId" 60 10 ?jid] r
    by simp
  have c3: "created s s3 [QUEUED]"
    using created_writes[OF c2 w3] by simp
  have len3: "?jid < length (imageJobT s3)"
    using c3 by (simp add: created_def)
  have "quotaT s3 = quotaT ?s2"
    using rateLimitWindow_quotaT[of "ge_cfg env" "ge_redis env" ?s2 "rateLimitKey ''gen'' userId" 60 10] r
    by simp
  then have q3: "quotaT s3 = quotaT s"
    by (simp add: recordEvent_def imageJob_create_def Let_def)
  obtain dq s4 where d: "decrementQuota (ge_date env) s3 userId = (dq, s4)"
    by (cases "decrementQuota (ge_date env) s3 userId")
  have dq: "fst (decrementQuota (ge_date env) s userId) = dq"
    using decrementQuota_fst_cong[OF q3, of "ge_date env" userId] d by simp
  have w4: "writes s3 s4 ?jid []"
    using decrementQuota_writes[of s3 "ge_date env" userId ?jid] d by simp
  have c4: "created s s4 [QUEUED]"
    using created_writes[OF c3 w4] by simp
  have len4: "?jid < length (imageJobT s4)"
    using c4 by (simp add: created_def)
  show ?thesis
  proof (cases "allowed rl")
    case False
    let ?s5 = "recordEvent (imageJob_update s3 ?jid FAILED
                       (\<lambda>j. j\<lparr> blockedReason := Some ''RATE_LIMITED'' \<rparr>)) ?jid ''failed''
                       (Some (JObj [(''reason'', JStr ''RATE_LIMITED''),
                                    (''remaining'', JNum (of_int (remaining rl)))]))"
    have "writes s3 ?s5 ?jid [FAILED]"
      using writes_trans[OF writes_update[OF len3] writes_recordEvent] by simp
    from created_writes[OF c3 this] have "created s ?s5 [QUEUED, FAILED]" by simp
    moreover have "generate_job env userId body s = (ok_job ?jid, ?s5)"
      using r False by (simp add: generate_job_def Let_def imageJob_create_def)
    ultimately show ?thesis using False by (simp add: rl)
  next
    case True
    show ?thesis
    proof (cases dq)
      case (Inl e)
      let ?s6 = "recordEvent (imageJob_update s4 ?jid FAILED
                            (\<lambda>j. j\<lparr> blockedReason := Some ''QUOTA_EXCEEDED'' \<rparr>)) ?jid ''failed''
                            (Some (JObj [(''reason'', JStr ''QUOTA_EXCEEDED'')]))"
      have "writes s4 ?s6 ?jid [FAILED]"
        using writes_trans[OF writes_update[OF len4] writes_recordEvent] by simp
      from created_writes[OF c4 this] have "created s ?s6 [QUEUED, FAILED]" by simp
      moreover have "generate_job env userId body s = (ok_job ?jid, ?s6)"
        using r True d Inl by (simp add: generate_job_def Let_def imageJob_create_def)
      ultimately show ?thesis using Inl by (simp add: rl dq)
    next
      case (Inr q)
      have e: "generate_job env userId body s = generate_process env ?jid body s4"
        using r True d Inr by (simp add: generate_job_def Let_def imageJob_create_def)
      from generate_process_writes[OF len4, of env body]
      obtain t where t: "t \<in> {COMPLETED, BLOCKED, FAILED}"
        and w: "writes s4 (snd (generate_process env ?jid body s4)) ?jid [PROCESSING, t]"
        by blast
      from created_writes[OF c4 w]
      have "created s (snd (generate_process env ?jid body s4)) [QUEUED, PROCESSING, t]"
        by simp
      then show ?thesis using t True Inr e by (auto simp: rl dq)
    qed
  qed
qed

text \<open>
  C1 (as the code has it). In every state reached by generation, webhook and usage
  requests, the status history of every job is one of: QUEUED, FAILED; QUEUED,
  PROCESSING, COMPLETED; QUEUED, PROCESSING, BLOCKED; QUEUED, PROCESSING, FAILED. So
  BLOCKED and COMPLETED are reached only from PROCESSING, FAILED from QUEUED or
  PROCESSING, and no job is assigned two terminal statuses. The job an authenticated,
  valid request creates in such a state goes from QUEUED to PROCESSING, and then to one
  terminal status, exactly when the rate limiter allows the request and the quota
  decrement does not throw; otherwise it goes from QUEUED directly to FAILED.
\<close>

theorem job_lifecycle:
  assumes "jobs_inv s"
  shows "(\<forall>j < length (imageJobT (run isUrl rs s)).
           job_history (run isUrl rs s) j \<in>
             {[QUEUED, FAILED], [QUEUED, PROCESSING, COMPLETED],
              [QUEUED, PROCESSING, BLOCKED], [QUEUED, PROCESSING, FAILED]})
       \<and> (\<forall>env req userId body.
             session_userId req = Some userId \<and> userId \<noteq> []
             \<and> parse_request_body isUrl req = Some body \<longrightarrow>
             (let s0 = run isUrl rs s;
                  h = job_history (snd (POST_generate isUrl env req s0)) (length (imageJobT s0))
              in if allowed (fst (rateLimitWindow (ge_cfg env) (ge_redis env) s0
                                   (rateLimitKey ''gen'' userId) 60 10))
                    \<and> \<not> isl (fst (decrementQuota (ge_date env) s0 userId))
                 then h = [QUEUED, PROCESSING, COMPLETED] \<or> h = [QUEUED, PROCESSING, BLOCKED]
                      \<or> h = [QUEUED, PROCESSING, FAILED]
                 else h = [QUEUED, FAILED]))"
proof (intro conjI allI impI)
  fix j assume "j < length (imageJobT (run isUrl rs s))"
  then show "job_history (run isUrl rs s) j \<in>
             {[QUEUED, FAILED], [QUEUED, PROCESSING, COMPLETED],
              [QUEUED, PROCESSING, BLOCKED], [QUEUED, PROCESSING, FAILED]}"
    using run_jobs_inv[OF assms, of isUrl rs] by (simp add: jobs_inv_def lifecycles_def)
next
  fix env req userId body
  assume a: "session_userId req = Some userId \<and> userId \<noteq> []
             \<and> parse_request_body isUrl req = Some body"
  let ?s0 = "run isUrl rs s"
  have inv: "jobs_inv ?s0" by (rule run_jobs_inv[OF assms])
  have p: "POST_generate isUrl env req ?s0 = generate_job env userId body ?s0"
    using POST_generate_authenticated[of req userId isUrl env ?s0] a by simp
  show "let s0 = run isUrl rs s;
            h = job_history (snd (POST_generate isUrl env req s0)) (length (imageJobT s0))
        in if allowed (fst (rateLimitWindow (ge_cfg env) (ge_redis env) s0
                             (rateLimitKey ''gen'' userId) 60 10))
              \<and> \<not> isl (fst (decrementQuota (ge_date env) s0 userId))
           then h = [QUEUED, PROCESSING, COMPLETED] \<or> h = [QUEUED, PROCESSING, BLOCKED]
                \<or> h = [QUEUED, PROCESSING, FAILED]
           else h = [QUEUED, FAILED]"
    unfolding Let_def p
    using generate_job_guards[of env ?s0 userId body] created_history[OF inv]
    by (auto split: if_splits)
qed

lemma jobs_inv_init: "jobs_inv init_sys"
  by (simp add: jobs_inv_def init_sys_def)

text \<open>The run of one request for which every service answers: the job is completed.\<close>

lemma generate_upload_env_gen:
  assumes "jobId < length (imageJobT s)"
  shows "writes s (snd (generate_upload env_gen jobId gbytes ctype s)) jobId [COMPLETED]
       \<and> \<not> isl (fst (generate_upload env_gen jobId gbytes ctype s))"
  using assms
  by (simp add: generate_upload_def env_gen_def cfg0_def Let_def writes_def recordEvent_def
        imageJob_update_def)

lemma generate_model_env_gen:
  assumes "jobId < length (imageJobT s)"
  shows "writes s (snd (generate_model env_gen jobId body inputBytes s)) jobId [COMPLETED]
       \<and> \<not> isl (fst (generate_model env_gen jobId body inputBytes s))"
proof -
  let ?s4 = "recordEvent ((recordEvent (recordEvent s jobId ''download_input_success''
                 (Some (JObj [(''bytes'', JNum (of_nat (length inputBytes)))]))) jobId ''call_gemini_start''
                 (Some (JObj [(''model'', JStr (geminiModelName (ge_cfg env_gen))),
                              (''outputFormat'', JStr (format_name (orPng (b_outputFormat body))))])))
                 \<lparr> extCalls := extCalls s @ [GeminiCall (b_style body)] \<rparr>) jobId ''call_gemini_success''
                         (Some (JObj [(''contentType'', JStr ''image/png''),
                                      (''bytes'', JNum (of_nat (length [4, 5 :: 8 word])))]))"
  have len: "jobId < length (imageJobT ?s4)" using assms by (simp add: recordEvent_def)
  have w: "writes s ?s4 jobId []" by (simp add: writes_def recordEvent_def)
  have g: "ge_gemini env_gen inputBytes (b_style body) (orPng (b_outputFormat body)) (b_promptVariant body)
             = Generated [4, 5] ''image/png''"
    by (simp add: env_gen_def)
  have eq: "generate_model env_gen jobId body inputBytes s = generate_upload env_gen jobId [4, 5] ''image/png'' ?s4"
    unfolding generate_model_def Let_def g by (simp add: recordEvent_def)
  show ?thesis
    unfolding eq using generate_upload_env_gen[OF len, of "[4, 5]" "''image/png''"] writes_trans[OF w]
    by fastforce
qed

lemma generate_try_env_gen:
  assumes "jobId < length (imageJobT s)"
  shows "writes s (snd (generate_try env_gen jobId body s)) jobId [COMPLETED]
       \<and> \<not> isl (fst (generate_try env_gen jobId body s))"
proof -
  let ?s2 = "(recordEvent s jobId ''download_input_start''
                 (Some (JObj [(''url'', JStr (b_inputUrl body))])))
               \<lparr> extCalls := extCalls s @ [FetchCall (b_inputUrl body)] \<rparr>"
  have len: "jobId < length (imageJobT ?s2)" using assms by (simp add: recordEvent_def)
  have w: "writes s ?s2 jobId []" by (simp add: writes_def recordEvent_def)
  have f: "ge_fetch env_gen (b_inputUrl body) = FetchResponse True 200 (Some ''image/jpeg'') (Inr [1, 2, 3])"
    by (simp add: env_gen_def)
  have eq: "generate_try env_gen jobId body s = generate_model env_gen jobId body [1, 2, 3] ?s2"
    unfolding generate_try_def Let_def f by (simp add: recordEvent_def)
  show ?thesis
    unfolding eq using generate_model_env_gen[OF len, of body "[1, 2, 3]"] writes_trans[OF w]
    by fastforce
qed

lemma generate_process_env_gen:
  assumes "jobId < length (imageJobT s)"
  shows "writes s (snd (generate_process env_gen jobId body s)) jobId [PROCESSING, COMPLETED]"
proof -
  let ?s2 = "recordEvent (imageJob_update s jobId PROCESSING (\<lambda>j. j)) jobId ''processing'' None"
  have w: "writes s ?s2 jobId [PROCESSING]"
    using writes_trans[OF writes_update[OF assms] writes_recordEvent] by simp
  have len: "jobId < length (imageJobT ?s2)"
    using assms writes_length[OF w] by simp
  obtain res s3 where t: "generate_try env_gen jobId body ?s2 = (res, s3)"
    by (cases "generate_try env_gen jobId body ?s2")
  from generate_try_env_gen[OF len, of body] t
  have w3: "writes ?s2 s3 jobId [COMPLETED]" and r: "\<not> isl res" by simp_all
  from r obtain resp where "res = Inr resp" by (cases res) auto
  then have "snd (generate_process env_gen jobId body s) = s3"
    using t by (simp add: generate_process_def Let_def)
  then show ?thesis using writes_trans[OF w w3] by simp
qed

lemma statusWrites_success:
  "statusWrites (snd (POST_generate (\<lambda>u. True) env_gen req_ok init_sys))
     = [(0, QUEUED), (0, PROCESSING), (0, COMPLETED)]"
proof -
  let ?row = "\<lparr> job_userId = ''u'', inputBlobUrl = b_inputUrl body_ok, style = b_style body_ok,
              promptVariant = b_promptVariant body_ok, status = QUEUED, blockedReason = None,
              outputBlobUrl = None, completedAt = None \<rparr>"
  let ?s2 = "recordEvent (snd (imageJob_create init_sys ?row)) 0 ''queued''
                 (Some (JObj [(''style'', JStr (style_name (b_style body_ok)))]))"
  obtain rl s3 where r: "rateLimitWindow (ge_cfg env_gen) (ge_redis env_gen) ?s2 (rateLimitKey ''gen'' ''u'') 60 10 = (rl, s3)"
    by (cases "rateLimitWindow (ge_cfg env_gen) (ge_redis env_gen) ?s2 (rateLimitKey ''gen'' ''u'') 60 10")
  have kv: "redisKV ?s2 = redisKV init_sys"
    by (simp add: recordEvent_def imageJob_create_def Let_def)
  have "fst (rateLimitWindow (ge_cfg env_gen) (ge_redis env_gen) ?s2 (rateLimitKey ''gen'' ''u'') 60 10)
          = fst (rateLimitWindow (ge_cfg env_gen) (ge_redis env_gen) init_sys (rateLimitKey ''gen'' ''u'') 60 10)"
    by (rule rateLimitWindow_fst_cong[OF kv])
  moreover have "allowed (fst (rateLimitWindow (ge_cfg env_gen) (ge_redis env_gen) init_sys (rateLimitKey ''gen'' ''u'') 60 10))"
    by (simp add: rateLimitWindow_def getRedis_def truthy_def env_gen_def cfg0_def client_ok_def
          init_sys_def Let_def)
  ultimately have al: "allowed rl" using r by simp
  have s3: "s3 = ?s2\<lparr> redisKV := redisKV s3 \<rparr>"
    using rateLimitWindow_snd[of "ge_cfg env_gen" "ge_redis env_gen" ?s2 "rateLimitKey ''gen'' ''u''" 60 10] r
    by simp
  have sw3: "statusWrites s3 = [(0, QUEUED)]" and len3: "length (imageJobT s3) = 1"
    and q3: "quotaT s3 = Map.empty"
    by (subst s3, simp add: recordEvent_def imageJob_create_def init_sys_def Let_def)+
  obtain dq s4 where d: "decrementQuota (ge_date env_gen) s3 ''u'' = (dq, s4)"
    by (cases "decrementQuota (ge_date env_gen) s3 ''u''")
  have w4: "writes s3 s4 0 []"
    using decrementQuota_writes[of s3 "ge_date env_gen" "''u''" 0] d by simp
  have ok: "\<not> isl dq"
    using d q3 by (auto simp: decrementQuota_def getOrCreateQuota_def quota_update_def Let_def
                     PLAN_DEFAULTS_def split: prod.splits)
  then obtain q where dq: "dq = Inr q" by (cases dq) auto
  have len4: "0 < length (imageJobT s4)" and sw4: "statusWrites s4 = [(0, QUEUED)]"
    using w4 len3 sw3 by (simp_all add: writes_def)
  have e: "generate_job env_gen ''u'' body_ok init_sys = generate_process env_gen 0 body_ok s4"
    using r al d dq by (simp add: generate_job_def Let_def imageJob_create_def init_sys_def)
  show ?thesis
    unfolding POST_generate_req_ok e
    using generate_process_env_gen[OF len4, of body_ok] sw4 by (simp add: writes_def)
qed


theorem job_lifecycle_witness:
  "jobs_inv init_sys
   \<and> length (imageJobT (run (\<lambda>u. True) [Generate env_gen req_ok] init_sys)) = 1
   \<and> job_history (run (\<lambda>u. True) [Generate env_gen req_ok] init_sys) 0
        = [QUEUED, PROCESSING, COMPLETED]
   \<and> job_history (run (\<lambda>u. True) [Generate env_gen req_ok] init_sys) 0 \<in>
        {[QUEUED, FAILED], [QUEUED, PROCESSING, COMPLETED],
         [QUEUED, PROCESSING, BLOCKED], [QUEUED, PROCESSING, FAILED]}
   \<and> jobs_inv sys_exhausted
   \<and> isl (fst (decrementQuota (ge_date env_gen) sys_exhausted ''u''))
   \<and> job_history (snd (POST_generate (\<lambda>u. True) env_gen req_ok sys_exhausted)) 0
        = [QUEUED, FAILED]"
proof -
  have len: "length (imageJobT (run (\<lambda>u. True) [Generate env_gen req_ok] init_sys)) = 1"
    using generate_job_effect[of env_gen "''u''" body_ok init_sys]
    by (auto simp: run_def handle_def POST_generate_req_ok created_def init_sys_def)
  have h: "job_history (run (\<lambda>u. True) [Generate env_gen req_ok] init_sys) 0
             = [QUEUED, PROCESSING, COMPLETED]"
    by (simp add: run_def handle_def job_history_def statusWrites_success)
  have inv: "jobs_inv sys_exhausted"
    by (simp add: jobs_inv_def sys_exhausted_def init_sys_def)
  have thrown: "isl (fst (decrementQuota (ge_date env_gen) sys_exhausted ''u''))"
    by (simp add: decrementQuota_def getOrCreateQuota_def sys_exhausted_def quota_exhausted_def
          env_gen_def Let_def)
  have u: "session_userId req_ok = Some ''u'' \<and> ''u'' \<noteq> []
             \<and> parse_request_body (\<lambda>u. True) req_ok = Some body_ok"
    using parsed_req_ok by (simp add: req_ok_def)
  have e: "length (imageJobT sys_exhausted) = 0"
    by (simp add: sys_exhausted_def init_sys_def)
  have direct: "job_history (snd (POST_generate (\<lambda>u. True) env_gen req_ok sys_exhausted)) 0
                  = [QUEUED, FAILED]"
    using job_lifecycle[OF inv, of "\<lambda>u. True" "[]", THEN conjunct2, rule_format, OF u, of env_gen]
      thrown
    by (simp add: run_def Let_def e)
  show ?thesis
    using jobs_inv_init len h inv thrown direct
      job_lifecycle[OF jobs_inv_init, of "\<lambda>u. True" "[Generate env_gen req_ok]", THEN conjunct1]
    by simp
qed

text \<open>
  The claim as stated fails: a job of a user with no quota left goes from QUEUED to
  FAILED without passing through PROCESSING.
\<close>

theorem job_lifecycle_counterexample:
  "job_history (snd (POST_generate (\<lambda>u. True) env_gen req_ok sys_exhausted)) 0 = [QUEUED, FAILED]
   \<and> \<not> chain_ok (job_history (snd (POST_generate (\<lambda>u. True) env_gen req_ok sys_exhausted)) 0)"
proof -
  have "job_history (snd (POST_generate (\<lambda>u. True) env_gen req_ok sys_exhausted)) 0 = [QUEUED, FAILED]"
    unfolding POST_generate_req_ok
    by (simp add: generate_job_def imageJob_create_def recordEvent_def rateLimitWindow_def
          getRedis_def truthy_def env_gen_def cfg0_def client_ok_def sys_exhausted_def
          init_sys_def Let_def rateLimitKey_def decrementQuota_def getOrCreateQuota_def
          quota_exhausted_def imageJob_update_def job_history_def)
  then show ?thesis by (simp add: lifecycle_step_def)
qed



section \<open>Properties of the download endpoint\<close>

lemma GET_download_ready:
  assumes "dl_session_userId req = Some userId" and "userId \<noteq> []"
    and "dl_jobId req = Some jobId"
    and "imageJob_findUnique s jobId = Some job"
    and "job_userId job = userId" and "status job = COMPLETED"
    and "outputBlobUrl job = Some url" and "url \<noteq> []"
  shows "GET_download env req s = download_serve env s userId jobId url"
  using assms by (simp add: GET_download_def truthy_def orDefault_def)


lemma download_serve_exempt:
  assumes "de_fetch env url = FetchResponse True code ct (Inr stored)"
    and "isWatermarkExempt (de_date env) s userId"
  shows "\<exists>hs. download_serve env s userId jobId url =
           Inr \<lparr> r_status = 200, r_body = ImageBody stored, r_headers = hs \<rparr>"
  using assms by (simp add: download_serve_def Let_def image_response_def)

lemma download_serve_marked:
  assumes "de_fetch env url = FetchResponse True code ct (Inr stored)"
    and "\<not> isWatermarkExempt (de_date env) s userId"
  shows "case applyVisibleWatermark (de_sharp env) stored download_wm_opts of
           Inl e \<Rightarrow> download_serve env s userId jobId url = Inl e
         | Inr marked \<Rightarrow>
             (\<exists>hs. download_serve env s userId jobId url =
                Inr \<lparr> r_status = 200, r_body = ImageBody marked, r_headers = hs \<rparr>)"
  using assms
  by (simp add: download_serve_def Let_def image_response_def split: sum.splits)

lemma escapeXml_touchfeets: "escapeXml ''touchfeets.com'' = ''touchfeets.com''"
  by (simp add: escapeXml_def replaceAll_def)

text \<open>The call the download makes into the image library, written out.\<close>

lemma download_watermark_call:
  "applyVisibleWatermark lib stored download_wm_opts =
     (case sharp_metadata lib stored of
        Inl e \<Rightarrow> Inl e
      | Inr meta \<Rightarrow>
          sharp_composite lib stored
            \<lparr> svg_width = (case meta_width meta of None \<Rightarrow> 1024 | Some w \<Rightarrow> w),
              svg_height = (case meta_height meta of None \<Rightarrow> 1024 | Some h \<Rightarrow> h),
              svg_glowStdDeviation =
                max (6 / 10)
                  (of_int (max 16 \<lfloor>of_nat (case meta_width meta of None \<Rightarrow> 1024 | Some w \<Rightarrow> w)
                                    * (45 / 1000) + 1 / 2 :: rat\<rfloor>) * (7 / 100)),
              svg_opacity = 55 / 100,
              svg_textX = of_nat (case meta_width meta of None \<Rightarrow> 1024 | Some w \<Rightarrow> w) / 2,
              svg_textY =
                int (case meta_height meta of None \<Rightarrow> 1024 | Some h \<Rightarrow> h)
                - max 8 \<lfloor>of_nat (case meta_height meta of None \<Rightarrow> 1024 | Some h \<Rightarrow> h)
                            * (5 / 100) + 1 / 2 :: rat\<rfloor>,
              svg_textAnchor = ''middle'',
              svg_fontFamily = watermark_fontFamily,
              svg_fontSize =
                max 16 \<lfloor>of_nat (case meta_width meta of None \<Rightarrow> 1024 | Some w \<Rightarrow> w)
                           * (45 / 1000) + 1 / 2 :: rat\<rfloor>,
              svg_fill = ''#ffffff'',
              svg_text = ''touchfeets.com'' \<rparr>
            0 0
            (toLowerCase (case meta_format meta of None \<Rightarrow> ''png'' | Some f \<Rightarrow> f)))"
  by (simp add: applyVisibleWatermark_def download_wm_opts_def orDefault_def js_round_def
        escapeXml_touchfeets Let_def split: sum.splits)


lemma floor_examples: "\<lfloor>81 / 2 :: rat\<rfloor> = 40" "\<lfloor>91 / 2 :: rat\<rfloor> = 45"
  by (simp_all add: floor_eq_iff)

lemma GET_download_marked:
  assumes "dl_session_userId req = Some userId" and "userId \<noteq> []"
    and "dl_jobId req = Some jobId"
    and "imageJob_findUnique s jobId = Some job"
    and "job_userId job = userId" and "status job = COMPLETED"
    and "outputBlobUrl job = Some url" and "url \<noteq> []"
    and "de_fetch env url = FetchResponse True code ct (Inr stored)"
    and "\<not> isWatermarkExempt (de_date env) s userId"
  shows "(case sharp_metadata (de_sharp env) stored of
             Inl e \<Rightarrow> GET_download env req s = Inl e
           | Inr meta \<Rightarrow>
               (let w = (case meta_width meta of None \<Rightarrow> 1024 | Some x \<Rightarrow> x);
                    h = (case meta_height meta of None \<Rightarrow> 1024 | Some x \<Rightarrow> x);
                    fontSize = max 16 \<lfloor>of_nat w * (45 / 1000) + 1 / 2 :: rat\<rfloor>;
                    yMargin = max 8 \<lfloor>of_nat h * (5 / 100) + 1 / 2 :: rat\<rfloor>
                in case sharp_composite (de_sharp env) stored
                          \<lparr> svg_width = w, svg_height = h,
                            svg_glowStdDeviation = max (6 / 10) (of_int fontSize * (7 / 100)),
                            svg_opacity = 55 / 100,
                            svg_textX = of_nat w / 2,
                            svg_textY = int h - yMargin,
                            svg_textAnchor = ''middle'',
                            svg_fontFamily = watermark_fontFamily,
                            svg_fontSize = fontSize,
                            svg_fill = ''#ffffff'',
                            svg_text = ''touchfeets.com'' \<rparr>
                          0 0 (toLowerCase (case meta_format meta of None \<Rightarrow> ''png'' | Some f \<Rightarrow> f)) of
                     Inl e \<Rightarrow> GET_download env req s = Inl e
                   | Inr marked \<Rightarrow>
                       (\<exists>hs. GET_download env req s =
                          Inr \<lparr> r_status = 200, r_body = ImageBody marked, r_headers = hs \<rparr>)))"
proof -
  note served = download_serve_marked[OF assms(9,10), of jobId]
  show ?thesis
  proof (cases "sharp_metadata (de_sharp env) stored")
    case (Inl e)
    then show ?thesis
      using served unfolding GET_download_ready[OF assms(1-8)] download_watermark_call
      by simp
  next
    case (Inr meta)
    then show ?thesis
      using served unfolding GET_download_ready[OF assms(1-8)] download_watermark_call
      by (simp add: Let_def split: sum.splits)
  qed
qed

text \<open>
  C5. A download of a COMPLETED job by its owner, whose stored output is fetched, decides
  on the watermark from the \<open>watermarkExempt\<close> flag of the owner's current-month quota row
  in the state at download time (the job row holds no such flag). With the flag set the
  response is 200 and its body is the stored output, unmodified. With the flag not set the
  body is what the image library returns for the stored output composited, at the top
  left corner, with an SVG of the image's size whose only text is \<open>touchfeets.com\<close>,
  anchored in the middle at half the width (centred), with its baseline the bottom margin
  above the bottom edge (the margin is 5 percent of the height, rounded, at least 8), in
  a group of opacity 0.55 (semi-transparent), with font size 4.5 percent of the width,
  rounded, at least 16; an error of the image library escapes the handler.
\<close>

theorem download_watermark_decision:
  assumes "dl_session_userId req = Some userId" and "userId \<noteq> []"
    and "dl_jobId req = Some jobId"
    and "imageJob_findUnique s jobId = Some job"
    and "job_userId job = userId" and "status job = COMPLETED"
    and "outputBlobUrl job = Some url" and "url \<noteq> []"
    and "de_fetch env url = FetchResponse True code ct (Inr stored)"
    and "quotaT s (userId, monthUtc (de_date env)) = Some q"
  shows "(watermarkExempt q \<longrightarrow>
            (\<exists>hs. GET_download env req s =
               Inr \<lparr> r_status = 200, r_body = ImageBody stored, r_headers = hs \<rparr>))
       \<and> (\<not> watermarkExempt q \<longrightarrow>
          (case sharp_metadata (de_sharp env) stored of
             Inl e \<Rightarrow> GET_download env req s = Inl e
           | Inr meta \<Rightarrow>
               (let w = (case meta_width meta of None \<Rightarrow> 1024 | Some x \<Rightarrow> x);
                    h = (case meta_height meta of None \<Rightarrow> 1024 | Some x \<Rightarrow> x);
                    fontSize = max 16 \<lfloor>of_nat w * (45 / 1000) + 1 / 2 :: rat\<rfloor>;
                    yMargin = max 8 \<lfloor>of_nat h * (5 / 100) + 1 / 2 :: rat\<rfloor>
                in case sharp_composite (de_sharp env) stored
                          \<lparr> svg_width = w, svg_height = h,
                            svg_glowStdDeviation = max (6 / 10) (of_int fontSize * (7 / 100)),
                            svg_opacity = 55 / 100,
                            svg_textX = of_nat w / 2,
                            svg_textY = int h - yMargin,
                            svg_textAnchor = ''middle'',
                            svg_fontFamily = watermark_fontFamily,
                            svg_fontSize = fontSize,
                            svg_fill = ''#ffffff'',
                            svg_text = ''touchfeets.com'' \<rparr>
                          0 0 (toLowerCase (case meta_format meta of None \<Rightarrow> ''png'' | Some f \<Rightarrow> f)) of
                     Inl e \<Rightarrow> GET_download env req s = Inl e
                   | Inr marked \<Rightarrow>
                       (\<exists>hs. GET_download env req s =
                          Inr \<lparr> r_status = 200, r_body = ImageBody marked, r_headers = hs \<rparr>))))"
proof (cases "watermarkExempt q")
  case True
  then have "isWatermarkExempt (de_date env) s userId"
    using assms(10) by (simp add: isWatermarkExempt_def)
  from download_serve_exempt[OF assms(9) this, of jobId] True show ?thesis
    unfolding GET_download_ready[OF assms(1-8)] by simp
next
  case False
  then have "\<not> isWatermarkExempt (de_date env) s userId"
    using assms(10) by (simp add: isWatermarkExempt_def)
  from GET_download_marked[OF assms(1-9) this] False show ?thesis
    by simp
qed

theorem download_watermark_decision_witness:
  "(\<exists>hs. GET_download env_dl req_dl
            (sys_done\<lparr> quotaT := [(''u'', monthUtc date0) \<mapsto> quota_paid] \<rparr>) =
       Inr \<lparr> r_status = 200, r_body = ImageBody [4, 5], r_headers = hs \<rparr>)
   \<and> (\<exists>hs. GET_download env_dl req_dl
            (sys_done\<lparr> quotaT := [(''u'', monthUtc date0) \<mapsto> quota_exhausted] \<rparr>) =
       Inr \<lparr> r_status = 200, r_body = ImageBody [4, 5, 255], r_headers = hs \<rparr>)"
proof -
  have u: "dl_session_userId req_dl = Some ''u''" and n: "''u'' \<noteq> []"
    and j: "dl_jobId req_dl = Some 0"
    by (simp_all add: req_dl_def)
  have r: "imageJob_findUnique (sys_done\<lparr> quotaT := t \<rparr>) 0 = Some job_done" for t
    by (simp add: imageJob_findUnique_def sys_done_def)
  have o: "job_userId job_done = ''u''" and c: "status job_done = COMPLETED"
    and b: "outputBlobUrl job_done = Some ''https://blob/generated/0.png''"
    and e: "''https://blob/generated/0.png'' \<noteq> []"
    by (simp_all add: job_done_def)
  have f: "de_fetch env_dl ''https://blob/generated/0.png'' =
             FetchResponse True 200 (Some ''image/png'') (Inr [4, 5])"
    by (simp add: env_dl_def)
  have q1: "quotaT (sys_done\<lparr> quotaT := [(''u'', monthUtc date0) \<mapsto> quota_paid] \<rparr>)
              (''u'', monthUtc (de_date env_dl)) = Some quota_paid"
    and q2: "quotaT (sys_done\<lparr> quotaT := [(''u'', monthUtc date0) \<mapsto> quota_exhausted] \<rparr>)
              (''u'', monthUtc (de_date env_dl)) = Some quota_exhausted"
    by (simp_all add: env_dl_def)
  have l: "toLowerCase ''png'' = ''png''"
    by (simp add: toLowerCase_def)
  have s: "de_sharp env_dl = sharp_example" by (simp add: env_dl_def)
  show ?thesis
    using download_watermark_decision[OF u n j r o c b e f q1]
          download_watermark_decision[OF u n j r o c b e f q2]
    by (simp add: quota_paid_def quota_exhausted_def s sharp_example_def l Let_def floor_examples)
qed

text \<open>
  C10. With no quota row for the user's current UTC month, \<open>isWatermarkExempt\<close> is false,
  and a download of a COMPLETED job by its owner returns the watermarked bytes: the
  response body is what the image library returns for the stored output composited with
  the \<open>touchfeets.com\<close> overlay (centred, above the bottom edge, opacity 0.55).
\<close>

theorem download_without_quota_row:
  assumes "quotaT s (userId, monthUtc (de_date env)) = None"
    and "dl_session_userId req = Some userId" and "userId \<noteq> []"
    and "dl_jobId req = Some jobId"
    and "imageJob_findUnique s jobId = Some job"
    and "job_userId job = userId" and "status job = COMPLETED"
    and "outputBlobUrl job = Some url" and "url \<noteq> []"
    and "de_fetch env url = FetchResponse True code ct (Inr stored)"
  shows "isWatermarkExempt (de_date env) s userId = False
       \<and> (case sharp_metadata (de_sharp env) stored of
             Inl e \<Rightarrow> GET_download env req s = Inl e
           | Inr meta \<Rightarrow>
               (let w = (case meta_width meta of None \<Rightarrow> 1024 | Some x \<Rightarrow> x);
                    h = (case meta_height meta of None \<Rightarrow> 1024 | Some x \<Rightarrow> x);
                    fontSize = max 16 \<lfloor>of_nat w * (45 / 1000) + 1 / 2 :: rat\<rfloor>;
                    yMargin = max 8 \<lfloor>of_nat h * (5 / 100) + 1 / 2 :: rat\<rfloor>
                in case sharp_composite (de_sharp env) stored
                          \<lparr> svg_width = w, svg_height = h,
                            svg_glowStdDeviation = max (6 / 10) (of_int fontSize * (7 / 100)),
                            svg_opacity = 55 / 100,
                            svg_textX = of_nat w / 2,
                            svg_textY = int h - yMargin,
                            svg_textAnchor = ''middle'',
                            svg_fontFamily = watermark_fontFamily,
                            svg_fontSize = fontSize,
                            svg_fill = ''#ffffff'',
                            svg_text = ''touchfeets.com'' \<rparr>
                          0 0 (toLowerCase (case meta_format meta of None \<Rightarrow> ''png'' | Some f \<Rightarrow> f)) of
                     Inl e \<Rightarrow> GET_download env req s = Inl e
                   | Inr marked \<Rightarrow>
                       (\<exists>hs. GET_download env req s =
                          Inr \<lparr> r_status = 200, r_body = ImageBody marked, r_headers = hs \<rparr>)))"
proof -
  have x: "\<not> isWatermarkExempt (de_date env) s userId"
    using assms(1) by (simp add: isWatermarkExempt_def)
  from GET_download_marked[OF assms(2-10) x] x show ?thesis
    by simp
qed

theorem download_without_quota_row_witness:
  "quotaT sys_done (''u'', monthUtc (de_date env_dl)) = None
   \<and> isWatermarkExempt (de_date env_dl) sys_done ''u'' = False
   \<and> (\<exists>hs. GET_download env_dl req_dl sys_done =
         Inr \<lparr> r_status = 200, r_body = ImageBody [4, 5, 255], r_headers = hs \<rparr>)"
proof -
  have q: "quotaT sys_done (''u'', monthUtc (de_date env_dl)) = None"
    by (simp add: sys_done_def init_sys_def)
  have u: "dl_session_userId req_dl = Some ''u''" and n: "''u'' \<noteq> []"
    and j: "dl_jobId req_dl = Some 0"
    by (simp_all add: req_dl_def)
  have r: "imageJob_findUnique sys_done 0 = Some job_done"
    by (simp add: imageJob_findUnique_def sys_done_def)
  have o: "job_userId job_done = ''u''" and c: "status job_done = COMPLETED"
    and b: "outputBlobUrl job_done = Some ''https://blob/generated/0.png''"
    and e: "''https://blob/generated/0.png'' \<noteq> []"
    by (simp_all add: job_done_def)
  have f: "de_fetch env_dl ''https://blob/generated/0.png'' =
             FetchResponse True 200 (Some ''image/png'') (Inr [4, 5])"
    by (simp add: env_dl_def)
  have l: "toLowerCase ''png'' = ''png''"
    by (simp add: toLowerCase_def)
  have s: "de_sharp env_dl = sharp_example" by (simp add: env_dl_def)
  show ?thesis
    using download_without_quota_row[OF q u n j r o c b e f] q
    by (simp add: s sharp_example_def l Let_def floor_examples)
qed

section \<open>Properties of the billing webhook\<close>

lemma POST_webhook_verified:
  "verified env req event \<Longrightarrow> POST_webhook env req s = webhook_process env event s"
  by (simp add: verified_def POST_webhook_def)

lemma applyEntitlements_events:
  "webhookEventT (snd (applyEntitlementsForSubscription cfg date s opts)) = webhookEventT s"
  by (simp add: applyEntitlementsForSubscription_def getOrCreateQuota_def quota_update_def
        Let_def split: option.splits prod.splits)

lemma webhook_dispatch_events:
  "webhookEventT (snd (webhook_dispatch env event s)) = webhookEventT s"
  using applyEntitlements_events
  by (auto simp: webhook_dispatch_def syncBySubscriptionId_def syncFromSubscription_def Let_def
           split: stripe_object.splits sum.splits option.splits)

lemma tryAcquire_cases:
  "tryAcquireIdempotency cfg c s key ttl = (a, s1) \<Longrightarrow>
     (a \<and> (s1 = s \<or> s1 = s\<lparr> redisKV := (redisKV s)(key \<mapsto> (1, Some ttl)) \<rparr>))
     \<or> (\<not> a \<and> s1 = s \<and> redisKV s key \<noteq> None)"
  by (auto simp: tryAcquireIdempotency_def split: option.splits if_splits)

lemma webhook_process_recorded:
  assumes "lock_inv s"
  shows "webhookEventT (snd (webhook_process env event s)) (ev_id event) \<noteq> None"
proof -
  obtain a s1 where t: "tryAcquireIdempotency (we_cfg env) (we_redis env) s
                             (stripeEventLockKey (ev_id event)) (24 * 60 * 60) = (a, s1)"
    by (cases "tryAcquireIdempotency (we_cfg env) (we_redis env) s
                             (stripeEventLockKey (ev_id event)) (24 * 60 * 60)")
  note c = tryAcquire_cases[OF t]
  show ?thesis
  proof (cases a)
    case False
    with c have "s1 = s" and "redisKV s (stripeEventLockKey (ev_id event)) \<noteq> None" by auto
    with assms have "webhookEventT s (ev_id event) \<noteq> None" by (simp add: lock_inv_def)
    with t False \<open>s1 = s\<close> show ?thesis by (simp add: webhook_process_def)
  next
    case True
    obtain n s2 where r: "recordWebhookEvent s1 event = (n, s2)"
      by (cases "recordWebhookEvent s1 event")
    have e2: "webhookEventT s2 (ev_id event) \<noteq> None"
      using r by (auto simp: recordWebhookEvent_def split: option.splits)
    obtain d s3 where w: "webhook_dispatch env event s2 = (d, s3)"
      by (cases "webhook_dispatch env event s2")
    have e3: "webhookEventT s3 (ev_id event) \<noteq> None"
      using webhook_dispatch_events[of env event s2] w e2 by simp
    have e4: "\<And>st. webhookEventT (markProcessed (we_date env) s3 (ev_id event) st) (ev_id event) \<noteq> None"
      using e3 by (auto simp: markProcessed_def split: option.splits)
    show ?thesis
      using t True r w e2 e4 by (cases d) (simp_all add: webhook_process_def Let_def)
  qed
qed

lemma webhook_process_duplicate:
  assumes "webhookEventT s (ev_id event) \<noteq> None"
  shows "(fst (webhook_process env event s) = json_response (WebhookOkBody True (Some ''redis'')) 200
          \<or> fst (webhook_process env event s) = json_response (WebhookOkBody True None) 200)
       \<and> snd (webhook_process env event s) = s\<lparr> redisKV := redisKV (snd (webhook_process env event s)) \<rparr>"
proof -
  obtain a s1 where t: "tryAcquireIdempotency (we_cfg env) (we_redis env) s
                             (stripeEventLockKey (ev_id event)) (24 * 60 * 60) = (a, s1)"
    by (cases "tryAcquireIdempotency (we_cfg env) (we_redis env) s
                             (stripeEventLockKey (ev_id event)) (24 * 60 * 60)")
  note c = tryAcquire_cases[OF t]
  have s1: "s1 = s\<lparr> redisKV := redisKV s1 \<rparr>" and e1: "webhookEventT s1 = webhookEventT s"
    using c by auto
  have r: "recordWebhookEvent s1 event = (False, s1)"
    using assms e1 by (auto simp: recordWebhookEvent_def split: option.splits)
  show ?thesis
    using t r s1 by (cases a) (simp_all add: webhook_process_def Let_def)
qed

lemma POST_generate_events:
  "webhookEventT (snd (POST_generate isUrl env req s)) = webhookEventT s"
proof (cases "\<exists>userId body. session_userId req = Some userId \<and> userId \<noteq> [] \<and> parse_request_body isUrl req = Some body")
  case True
  then obtain userId body where u: "session_userId req = Some userId" "userId \<noteq> []"
    and b: "parse_request_body isUrl req = Some body" by blast
  have "POST_generate isUrl env req s = generate_job env userId body s"
    using POST_generate_authenticated[OF u, of isUrl env s] b by simp
  then show ?thesis
    using generate_job_effect[of env userId body s] by (auto simp: created_def)
next
  case False
  then have "snd (POST_generate isUrl env req s) = s"
    by (auto simp: POST_generate_def truthy_def parse_request_body_def split: option.splits)
  then show ?thesis by simp
qed

lemma webhook_process_keeps:
  assumes "webhookEventT s eid \<noteq> None"
  shows "webhookEventT (snd (webhook_process env event s)) eid \<noteq> None"
proof -
  obtain a s1 where t: "tryAcquireIdempotency (we_cfg env) (we_redis env) s
                             (stripeEventLockKey (ev_id event)) (24 * 60 * 60) = (a, s1)"
    by (cases "tryAcquireIdempotency (we_cfg env) (we_redis env) s
                             (stripeEventLockKey (ev_id event)) (24 * 60 * 60)")
  have e1: "webhookEventT s1 eid \<noteq> None"
    using tryAcquire_cases[OF t] assms by auto
  obtain n s2 where r: "recordWebhookEvent s1 event = (n, s2)"
    by (cases "recordWebhookEvent s1 event")
  have e2: "webhookEventT s2 eid \<noteq> None"
    using r e1 by (auto simp: recordWebhookEvent_def split: option.splits)
  obtain d s3 where w: "webhook_dispatch env event s2 = (d, s3)"
    by (cases "webhook_dispatch env event s2")
  have e3: "webhookEventT s3 eid \<noteq> None"
    using webhook_dispatch_events[of env event s2] w e2 by simp
  have e4: "\<And>st. webhookEventT (markProcessed (we_date env) s3 (ev_id event) st) eid \<noteq> None"
    using e3 by (auto simp: markProcessed_def split: option.splits)
  show ?thesis
    using t r w e1 e2 e4 by (cases a; cases n; cases d) (simp_all add: webhook_process_def Let_def)
qed

lemma POST_webhook_keeps:
  "webhookEventT s eid \<noteq> None \<Longrightarrow> webhookEventT (snd (POST_webhook env req s)) eid \<noteq> None"
  using webhook_process_keeps
  by (auto simp: POST_webhook_def split: sum.splits)

lemma GET_usage_events:
  "webhookEventT (snd (GET_usage date session s)) = webhookEventT s
   \<and> redisKV (snd (GET_usage date session s)) = redisKV s"
  by (simp add: GET_usage_def getOrCreateQuota_def Let_def split: option.splits prod.splits)

lemma handle_keeps:
  "webhookEventT s eid \<noteq> None \<Longrightarrow> webhookEventT (handle isUrl s r) eid \<noteq> None"
  by (cases r) (simp_all add: handle_def POST_generate_events POST_webhook_keeps GET_usage_events)

lemma run_keeps:
  "webhookEventT s eid \<noteq> None \<Longrightarrow> webhookEventT (run isUrl rs s) eid \<noteq> None"
  unfolding run_def
proof (induction rs arbitrary: s)
  case Nil
  then show ?case by simp
next
  case (Cons a rs)
  from handle_keeps[OF Cons.prems]
  have "webhookEventT (handle isUrl s a) eid \<noteq> None" .
  from Cons.IH[OF this] show ?case by simp
qed


subsection \<open>Held locks belong to recorded events, in every reachable state\<close>

lemma generate_upload_redis:
  "redisKV (snd (generate_upload env jobId gbytes ctype s)) = redisKV s"
  by (simp add: generate_upload_def Let_def recordEvent_def imageJob_update_def
        split: option.splits put_result.splits)

lemma generate_model_redis:
  "redisKV (snd (generate_model env jobId body inputBytes s)) = redisKV s"
  by (simp add: generate_model_def Let_def recordEvent_def imageJob_update_def
        generate_upload_redis split: gemini_result.splits error.splits)

lemma generate_try_redis:
  "redisKV (snd (generate_try env jobId body s)) = redisKV s"
  by (simp add: generate_try_def Let_def recordEvent_def generate_model_redis
        split: fetch_result.splits sum.splits)

lemma generate_process_redis:
  "redisKV (snd (generate_process env jobId body s)) = redisKV s"
proof -
  let ?s2 = "recordEvent (imageJob_update s jobId PROCESSING (\<lambda>j. j)) jobId ''processing'' None"
  have a: "redisKV ?s2 = redisKV s"
    by (simp add: recordEvent_def imageJob_update_def)
  obtain res s3 where t: "generate_try env jobId body ?s2 = (res, s3)"
    by (cases "generate_try env jobId body ?s2")
  have b: "redisKV s3 = redisKV s"
    using generate_try_redis[of env jobId body ?s2] t a by simp
  show ?thesis
    using t b by (cases res) (simp_all add: generate_process_def Let_def recordEvent_def imageJob_update_def)
qed

lemma rateLimitWindow_redis:
  "key' \<noteq> key \<Longrightarrow> redisKV (snd (rateLimitWindow cfg c s key w m)) key' = redisKV s key'"
  by (simp add: rateLimitWindow_def Let_def split: option.splits prod.splits)

lemma decrementQuota_redis: "redisKV (snd (decrementQuota date s userId)) = redisKV s"
  by (simp add: decrementQuota_def getOrCreateQuota_def quota_update_def Let_def
        split: option.splits prod.splits)

lemma generate_job_redis:
  assumes "key' \<noteq> rateLimitKey ''gen'' userId"
  shows "redisKV (snd (generate_job env userId body s)) key' = redisKV s key'"
proof -
  let ?jid = "length (imageJobT s)"
  let ?row = "\<lparr> job_userId = userId, inputBlobUrl = b_inputUrl body, style = b_style body,
              promptVariant = b_promptVariant body, status = QUEUED, blockedReason = None,
              outputBlobUrl = None, completedAt = None \<rparr>"
  let ?s2 = "recordEvent (snd (imageJob_create s ?row)) ?jid ''queued''
                 (Some (JObj [(''style'', JStr (style_name (b_style body)))]))"
  obtain rl s3 where r: "rateLimitWindow (ge_cfg env) (ge_redis env) ?s2 (rateLimitKey ''gen'' userId) 60 10 = (rl, s3)"
    by (cases "rateLimitWindow (ge_cfg env) (ge_redis env) ?s2 (rateLimitKey ''gen'' userId) 60 10")
  have k3: "redisKV s3 key' = redisKV s key'"
    using rateLimitWindow_redis[OF assms, of "ge_cfg env" "ge_redis env" ?s2 60 10] r
    by (simp add: recordEvent_def imageJob_create_def Let_def)
  obtain dq s4 where d: "decrementQuota (ge_date env) s3 userId = (dq, s4)"
    by (cases "decrementQuota (ge_date env) s3 userId")
  have k4: "redisKV s4 = redisKV s3"
    using decrementQuota_redis[of "ge_date env" s3 userId] d by simp
  show ?thesis
  proof (cases "allowed rl")
    case False
    then show ?thesis using r k3
      by (simp add: generate_job_def Let_def imageJob_create_def recordEvent_def imageJob_update_def)
  next
    case True
    then show ?thesis using r d k3 k4 generate_process_redis[of env ?jid body s4]
      by (cases dq)
         (simp_all add: generate_job_def Let_def imageJob_create_def recordEvent_def imageJob_update_def)
  qed
qed

lemma lock_key_not_rate_key: "stripeEventLockKey eid \<noteq> rateLimitKey scope ident"
  by (simp add: stripeEventLockKey_def rateLimitKey_def)

lemma lock_key_inj: "stripeEventLockKey a = stripeEventLockKey b \<Longrightarrow> a = b"
  by (simp add: stripeEventLockKey_def)

lemma POST_generate_lock_inv:
  assumes "lock_inv s"
  shows "lock_inv (snd (POST_generate isUrl env req s))"
proof (cases "\<exists>userId body. session_userId req = Some userId \<and> userId \<noteq> [] \<and> parse_request_body isUrl req = Some body")
  case True
  then obtain userId body where u: "session_userId req = Some userId" "userId \<noteq> []"
    and b: "parse_request_body isUrl req = Some body" by blast
  have p: "POST_generate isUrl env req s = generate_job env userId body s"
    using POST_generate_authenticated[OF u, of isUrl env s] b by simp
  have "redisKV (snd (generate_job env userId body s)) (stripeEventLockKey eid) = redisKV s (stripeEventLockKey eid)" for eid
    by (rule generate_job_redis[OF lock_key_not_rate_key])
  then show ?thesis
    using assms POST_generate_events[of isUrl env req s] unfolding p lock_inv_def by simp
next
  case False
  then have "snd (POST_generate isUrl env req s) = s"
    by (auto simp: POST_generate_def truthy_def parse_request_body_def split: option.splits)
  then show ?thesis using assms by simp
qed

lemma applyEntitlements_redis:
  "redisKV (snd (applyEntitlementsForSubscription cfg date s opts)) = redisKV s"
  by (simp add: applyEntitlementsForSubscription_def getOrCreateQuota_def quota_update_def
        Let_def split: option.splits prod.splits)

lemma webhook_dispatch_redis:
  "redisKV (snd (webhook_dispatch env event s)) = redisKV s"
  using applyEntitlements_redis
  by (auto simp: webhook_dispatch_def syncBySubscriptionId_def syncFromSubscription_def Let_def
           split: stripe_object.splits sum.splits option.splits)

lemma webhook_process_lock_inv:
  assumes "lock_inv s"
  shows "lock_inv (snd (webhook_process env event s))"
proof -
  obtain a s1 where t: "tryAcquireIdempotency (we_cfg env) (we_redis env) s
                             (stripeEventLockKey (ev_id event)) (24 * 60 * 60) = (a, s1)"
    by (cases "tryAcquireIdempotency (we_cfg env) (we_redis env) s
                             (stripeEventLockKey (ev_id event)) (24 * 60 * 60)")
  note c = tryAcquire_cases[OF t]
  show ?thesis
  proof (cases a)
    case False
    with c t assms show ?thesis by (auto simp: webhook_process_def)
  next
    case True
    obtain n s2 where r: "recordWebhookEvent s1 event = (n, s2)"
      by (cases "recordWebhookEvent s1 event")
    have inv2: "lock_inv s2"
      unfolding lock_inv_def
    proof (intro allI impI)
      fix eid assume h: "redisKV s2 (stripeEventLockKey eid) \<noteq> None"
      have k2: "redisKV s2 = redisKV s1"
        using r by (auto simp: recordWebhookEvent_def split: option.splits)
      have mono: "webhookEventT s eid \<noteq> None \<Longrightarrow> webhookEventT s2 eid \<noteq> None"
        using r c by (auto simp: recordWebhookEvent_def split: option.splits if_splits)
      have own: "webhookEventT s2 (ev_id event) \<noteq> None"
        using r by (auto simp: recordWebhookEvent_def split: option.splits)
      show "webhookEventT s2 eid \<noteq> None"
      proof (cases "eid = ev_id event")
        case True
        with own show ?thesis by simp
      next
        case False
        then have "stripeEventLockKey eid \<noteq> stripeEventLockKey (ev_id event)"
          using lock_key_inj by blast
        then have "redisKV s (stripeEventLockKey eid) \<noteq> None"
          using h k2 c by auto
        with assms have "webhookEventT s eid \<noteq> None" by (simp add: lock_inv_def)
        then show ?thesis by (rule mono)
      qed
    qed
    obtain d s3 where w: "webhook_dispatch env event s2 = (d, s3)"
      by (cases "webhook_dispatch env event s2")
    have inv3: "lock_inv s3"
      using inv2 webhook_dispatch_redis[of env event s2] webhook_dispatch_events[of env event s2] w
      by (simp add: lock_inv_def)
    have inv4: "\<And>st. lock_inv (markProcessed (we_date env) s3 (ev_id event) st)"
      using inv3 by (auto simp: lock_inv_def markProcessed_def split: option.splits)
    show ?thesis
      using t True r w inv2 inv4 by (cases n; cases d) (simp_all add: webhook_process_def Let_def)
  qed
qed

lemma POST_webhook_lock_inv: "lock_inv s \<Longrightarrow> lock_inv (snd (POST_webhook env req s))"
  using webhook_process_lock_inv
  by (auto simp: POST_webhook_def split: sum.splits)

lemma GET_usage_lock_inv: "lock_inv s \<Longrightarrow> lock_inv (snd (GET_usage date session s))"
  by (simp add: lock_inv_def GET_usage_events)

lemma handle_lock_inv: "lock_inv s \<Longrightarrow> lock_inv (handle isUrl s r)"
  by (cases r)
     (simp_all add: handle_def POST_generate_lock_inv POST_webhook_lock_inv GET_usage_lock_inv)

lemma run_lock_inv: "lock_inv s \<Longrightarrow> lock_inv (run isUrl rs s)"
  unfolding run_def
proof (induction rs arbitrary: s)
  case Nil
  then show ?case by simp
next
  case (Cons a rs)
  from Cons.IH[OF handle_lock_inv[OF Cons.prems]] show ?case by simp
qed

lemma lock_inv_init: "lock_inv init_sys"
  by (simp add: lock_inv_def init_sys_def)



subsection \<open>Duplicate deliveries\<close>

text \<open>
  C7. After a verified delivery of an event, a second verified delivery with the same
  event id, arriving after any number of other requests, is answered with the deduped
  success (through the lock of the key-value store or through the unique row of the
  webhook event table) and leaves the subscription table, the quota table, the audit log
  of entitlement syncs and the webhook event table as they were: the entitlement update
  is not run again. The first delivery starts in a state in which every held lock belongs
  to a recorded event, which holds initially and after every request.
\<close>

theorem webhook_duplicate_delivery:
  assumes "lock_inv s"
    and "verified env1 req1 event1" and "verified env2 req2 event2"
    and "ev_id event2 = ev_id event1"
    and "s1 = run isUrl rs (snd (POST_webhook env1 req1 s))"
    and "POST_webhook env2 req2 s1 = (r, s2)"
  shows "(r = json_response (WebhookOkBody True (Some ''redis'')) 200
          \<or> r = json_response (WebhookOkBody True None) 200)
       \<and> subscriptionT s2 = subscriptionT s1 \<and> quotaT s2 = quotaT s1
       \<and> auditLogT s2 = auditLogT s1 \<and> webhookEventT s2 = webhookEventT s1"
proof -
  have "webhookEventT (snd (POST_webhook env1 req1 s)) (ev_id event1) \<noteq> None"
    using webhook_process_recorded[OF assms(1), of env1 event1] POST_webhook_verified[OF assms(2)]
    by simp
  then have rec: "webhookEventT s1 (ev_id event2) \<noteq> None"
    using run_keeps assms(4,5) by simp
  have p: "webhook_process env2 event2 s1 = (r, s2)"
    using POST_webhook_verified[OF assms(3)] assms(6) by simp
  from webhook_process_duplicate[OF rec, of env2] p
  have d: "r = json_response (WebhookOkBody True (Some ''redis'')) 200
          \<or> r = json_response (WebhookOkBody True None) 200"
    and f: "s2 = s1\<lparr> redisKV := redisKV s2 \<rparr>" by simp_all
  have "subscriptionT s2 = subscriptionT s1 \<and> quotaT s2 = quotaT s1
       \<and> auditLogT s2 = auditLogT s1 \<and> webhookEventT s2 = webhookEventT s1"
    by (subst f, simp)+
  with d show ?thesis by simp
qed


lemma verified_wh: "verified env_wh req_wh event_upd"
  by (simp add: verified_def env_wh_def req_wh_def cfg0_def truthy_def)

lemma markProcessed_quota: "quotaT (markProcessed date s eid st) = quotaT s"
  by (simp add: markProcessed_def split: option.splits)

lemma first_delivery_quota:
  "map_option paidRemaining (quotaT (snd (POST_webhook env_wh req_wh sys_sub)) (''u'', monthUtc date0)) = Some 50"
  unfolding POST_webhook_verified[OF verified_wh]
  by (simp add: webhook_process_def tryAcquireIdempotency_def getRedis_def truthy_def env_wh_def cfg0_def
        client_ok_def sys_sub_def init_sys_def recordWebhookEvent_def event_upd_def webhook_dispatch_def
        syncFromSubscription_def findUserIdByCustomerId_def Let_def markProcessed_quota
        applyEntitlements_quotaT resolveTier_def planFromStripePriceId_def getOrCreateQuota_def PLAN_DEFAULTS_def
        split: prod.splits)

lemma lock_inv_sys_sub: "lock_inv sys_sub"
  by (simp add: lock_inv_def sys_sub_def init_sys_def)

theorem webhook_duplicate_delivery_witness:
  "lock_inv sys_sub \<and> verified env_wh req_wh event_upd
   \<and> map_option paidRemaining
        (quotaT (snd (POST_webhook env_wh req_wh sys_sub)) (''u'', monthUtc date0)) = Some 50
   \<and> (fst (POST_webhook env_wh req_wh (snd (POST_webhook env_wh req_wh sys_sub)))
         = json_response (WebhookOkBody True (Some ''redis'')) 200
       \<or> fst (POST_webhook env_wh req_wh (snd (POST_webhook env_wh req_wh sys_sub)))
         = json_response (WebhookOkBody True None) 200)
   \<and> quotaT (snd (POST_webhook env_wh req_wh (snd (POST_webhook env_wh req_wh sys_sub))))
        = quotaT (snd (POST_webhook env_wh req_wh sys_sub))
   \<and> subscriptionT (snd (POST_webhook env_wh req_wh (snd (POST_webhook env_wh req_wh sys_sub))))
        = subscriptionT (snd (POST_webhook env_wh req_wh sys_sub))"
proof -
  have r: "snd (POST_webhook env_wh req_wh sys_sub) = run (\<lambda>u. True) [] (snd (POST_webhook env_wh req_wh sys_sub))"
    by (simp add: run_def)
  have p: "POST_webhook env_wh req_wh (snd (POST_webhook env_wh req_wh sys_sub)) =
             (fst (POST_webhook env_wh req_wh (snd (POST_webhook env_wh req_wh sys_sub))),
              snd (POST_webhook env_wh req_wh (snd (POST_webhook env_wh req_wh sys_sub))))"
    by simp
  show ?thesis
    using webhook_duplicate_delivery[OF lock_inv_sys_sub verified_wh verified_wh refl r p]
      lock_inv_sys_sub verified_wh first_delivery_quota
    by simp
qed


end
